theory Spec2Isabelle
  imports Main "HOL-Library.Word"
begin

section \<open>JavaScript strings\<close>

text \<open>
  A JavaScript string is a sequence of 16-bit code units. Phone numbers, project names,
  tokens and timestamps are all such strings. \<open>js\<close> writes an ASCII literal as one.
\<close>

type_synonym code_unit = "16 word"
type_synonym jsstring = "code_unit list"

definition js :: "string \<Rightarrow> jsstring" where
  "js s = map (\<lambda>c. of_nat (of_char c)) s"

text \<open>JavaScript truthiness of a string: only the empty string is falsy.\<close>

definition truthy :: "jsstring \<Rightarrow> bool" where
  "truthy s = (s \<noteq> [])"

section \<open>Errors\<close>

text \<open>
  The handlers throw through \<open>errors.conflictError\<close>, \<open>errors.notFoundError\<close>,
  \<open>errors.unauthorizedError\<close>, \<open>errors.badRequestError\<close> (each with a message) and
  \<open>errors.projectNotFoundError()\<close> (no message); \<open>decodeURIComponent\<close> throws the built-in
  \<open>URIError\<close>. A throw is the \<open>Inl\<close> branch of the handler's result.
\<close>

datatype error_kind = Unauthorized | BadRequest | Conflict | NotFound | ProjectNotFound | URIError

datatype error = Error (kind: error_kind) (message: "string option")

abbreviation unauthorizedError :: "string \<Rightarrow> error" where
  "unauthorizedError m \<equiv> Error Unauthorized (Some m)"

abbreviation badRequestError :: "string \<Rightarrow> error" where
  "badRequestError m \<equiv> Error BadRequest (Some m)"

abbreviation conflictError :: "string \<Rightarrow> error" where
  "conflictError m \<equiv> Error Conflict (Some m)"

abbreviation notFoundError :: "string \<Rightarrow> error" where
  "notFoundError m \<equiv> Error NotFound (Some m)"

abbreviation projectNotFoundError :: error where
  "projectNotFoundError \<equiv> Error ProjectNotFound None"

abbreviation uriError :: error where
  "uriError \<equiv> Error URIError None"

section \<open>The built-in \<open>decodeURIComponent\<close>\<close>

text \<open>
  \<open>decodeURIComponent\<close> is the ECMAScript operation Decode with an empty set of
  preserved escapes: every \<open>%XX\<close> is replaced by the octet it names, a run of octets
  that starts with a lead byte must be a well-formed UTF-8 encoding of one code point, which
  is then written as one or two UTF-16 code units; anything else that starts with \<open>%\<close>
  throws \<open>URIError\<close>.
\<close>

definition hexval :: "code_unit \<Rightarrow> nat option" where
  "hexval c =
     (if 0x30 \<le> c \<and> c \<le> 0x39 then Some (unat c - 0x30)
      else if 0x41 \<le> c \<and> c \<le> 0x46 then Some (unat c - 0x41 + 10)
      else if 0x61 \<le> c \<and> c \<le> 0x66 then Some (unat c - 0x61 + 10)
      else None)"

text \<open>Two hexadecimal digits after a \<open>%\<close>: the octet and the rest of the string.\<close>

fun ParseHexOctet :: "jsstring \<Rightarrow> (nat \<times> jsstring) option" where
  "ParseHexOctet (h1 # h2 # rest) =
     (case hexval h1 of None \<Rightarrow> None
      | Some a \<Rightarrow> (case hexval h2 of None \<Rightarrow> None | Some b \<Rightarrow> Some (16 * a + b, rest)))"
| "ParseHexOctet _ = None"

text \<open>The \<open>j\<close> continuation escapes \<open>%XX\<close> that must follow a lead byte.\<close>

fun continuationBytes :: "nat \<Rightarrow> jsstring \<Rightarrow> (nat list \<times> jsstring) option" where
  "continuationBytes 0 s = Some ([], s)"
| "continuationBytes (Suc j) [] = None"
| "continuationBytes (Suc j) (c # s) =
     (if c \<noteq> 0x25 then None
      else case ParseHexOctet s of None \<Rightarrow> None
        | Some (b, s') \<Rightarrow>
            (case continuationBytes j s' of None \<Rightarrow> None
             | Some (bs, r) \<Rightarrow> Some (b # bs, r)))"

text \<open>The number of leading 1 bits of an octet (5 stands for "more than four").\<close>

definition leadingOnes :: "nat \<Rightarrow> nat" where
  "leadingOnes B =
     (if B < 0x80 then 0 else if B < 0xC0 then 1 else if B < 0xE0 then 2
      else if B < 0xF0 then 3 else if B < 0xF8 then 4 else 5)"

text \<open>
  The code point of a lead byte \<open>B\<close> and its continuation bytes, if they are well-formed
  UTF-8: continuation bytes in \<open>80..BF\<close>, no overlong form, no surrogate, at most
  \<open>10FFFF\<close>.
\<close>

definition utf8CodePoint :: "nat \<Rightarrow> nat list \<Rightarrow> nat option" where
  "utf8CodePoint B bs =
     (if \<not> list_all (\<lambda>b. 0x80 \<le> b \<and> b \<le> 0xBF) bs then None
      else let n = Suc (length bs);
               lead = (if n = 2 then B - 0xC0 else if n = 3 then B - 0xE0 else B - 0xF0);
               V = foldl (\<lambda>v b. 64 * v + (b - 0x80)) lead bs;
               lo = (if n = 2 then 0x80 else if n = 3 then 0x800 else 0x10000)
           in if V < lo \<or> (0xD800 \<le> V \<and> V \<le> 0xDFFF) \<or> 0x10FFFF < V then None else Some V)"

definition UTF16EncodeCodePoint :: "nat \<Rightarrow> jsstring" where
  "UTF16EncodeCodePoint V =
     (if V \<le> 0xFFFF then [of_nat V]
      else [of_nat ((V - 0x10000) div 0x400 + 0xD800),
            of_nat ((V - 0x10000) mod 0x400 + 0xDC00)])"

function decodeURIComponent :: "jsstring \<Rightarrow> error + jsstring" where
  "decodeURIComponent [] = Inr []"
| "decodeURIComponent (c # s) =
     (if c \<noteq> 0x25 then
        (case decodeURIComponent s of Inl e \<Rightarrow> Inl e | Inr r \<Rightarrow> Inr (c # r))
      else case ParseHexOctet s of
          None \<Rightarrow> Inl uriError
        | Some (B, s') \<Rightarrow>
            (let n = leadingOnes B in
             if n = 0 then
               (case decodeURIComponent s' of Inl e \<Rightarrow> Inl e | Inr r \<Rightarrow> Inr (of_nat B # r))
             else if n = 1 \<or> 4 < n then Inl uriError
             else case continuationBytes (n - 1) s' of
                 None \<Rightarrow> Inl uriError
               | Some (bs, s'') \<Rightarrow>
                   (case utf8CodePoint B bs of
                      None \<Rightarrow> Inl uriError
                    | Some V \<Rightarrow>
                        (case decodeURIComponent s'' of Inl e \<Rightarrow> Inl e
                         | Inr r \<Rightarrow> Inr (UTF16EncodeCodePoint V @ r)))))"
  by pat_completeness auto
termination
proof (relation "measure length", goal_cases)
  have octet: "length r < length s" if "ParseHexOctet s = Some (B, r)" for s B r
    using that by (induction s rule: ParseHexOctet.induct) (auto split: option.splits)
  have continuation: "length r \<le> length s" if "continuationBytes j s = Some (bs, r)" for j s bs r
    using that
  proof (induction j s arbitrary: bs r rule: continuationBytes.induct)
    case (3 j c s)
    then show ?case
      by (fastforce split: if_splits option.splits prod.splits dest: octet)
  qed auto
  {
    case 1
    show ?case by simp
  next
    case 2
    then show ?case by simp
  next
    case 3
    then show ?case by (auto dest: octet)
  next
    case 4
    then show ?case by (auto dest!: octet continuation)
  }
qed

section \<open>The phone number pattern\<close>

text \<open>
  The regular expression \<open>/^\+?[1-9]\d{1,14}$/u\<close> of the member route, as a term of the
  fragment of regular expressions it uses, with the matcher of that fragment. \<open>ends r s\<close>
  lists the rests of \<open>s\<close> after each way \<open>r\<close> matches a prefix of it, greedy
  alternatives first; \<open>test\<close> anchors the match at both ends, as \<open>^\<close> and \<open>$\<close> do
  without the multiline flag. Under the \<open>u\<close> flag \<open>\d\<close> is exactly \<open>[0-9]\<close>; a
  surrogate code unit is in none of the classes of this pattern, so matching code unit by
  code unit agrees with matching code point by code point.
\<close>

datatype regex =
    Chr code_unit
  | Range code_unit code_unit
  | Seq regex regex
  | Opt regex
  | Repeat nat nat regex

fun repeatEnds ::
  "(jsstring \<Rightarrow> jsstring list) \<Rightarrow> nat \<Rightarrow> nat \<Rightarrow> jsstring \<Rightarrow> jsstring list" where
  "repeatEnds f lo 0 s = (if lo = 0 then [s] else [])"
| "repeatEnds f lo (Suc hi) s =
     concat (map (repeatEnds f (lo - 1) hi) (f s)) @ (if lo = 0 then [s] else [])"

primrec ends :: "regex \<Rightarrow> jsstring \<Rightarrow> jsstring list" where
  "ends (Chr c) = (\<lambda>s. case s of [] \<Rightarrow> [] | x # r \<Rightarrow> if x = c then [r] else [])"
| "ends (Range lo hi) = (\<lambda>s. case s of [] \<Rightarrow> [] | x # r \<Rightarrow> if lo \<le> x \<and> x \<le> hi then [r] else [])"
| "ends (Seq a b) = (\<lambda>s. concat (map (ends b) (ends a s)))"
| "ends (Opt a) = (\<lambda>s. ends a s @ [s])"
| "ends (Repeat lo hi a) = (\<lambda>s. repeatEnds (ends a) lo hi s)"

definition test :: "regex \<Rightarrow> jsstring \<Rightarrow> bool" where
  "test r s = ([] \<in> set (ends r s))"

definition phonePattern :: regex where
  "phonePattern = Seq (Opt (Chr 0x2B)) (Seq (Range 0x31 0x39) (Repeat 1 14 (Range 0x30 0x39)))"

text \<open>
  The same format in the words of the specification: an optional leading \<open>+\<close>, then a
  first digit 1-9, then 1 to 14 further digits (2 to 15 digits in all).
\<close>

definition isDigit :: "code_unit \<Rightarrow> bool" where
  "isDigit c = (0x30 \<le> c \<and> c \<le> 0x39)"

definition e164Like :: "jsstring \<Rightarrow> bool" where
  "e164Like s =
     (case (case s of [] \<Rightarrow> [] | c # r \<Rightarrow> if c = 0x2B then r else s) of
        [] \<Rightarrow> False
      | d # ds \<Rightarrow> 0x31 \<le> d \<and> d \<le> 0x39 \<and> 1 \<le> length ds \<and> length ds \<le> 14 \<and> list_all isDigit ds)"

section \<open>Records and the credential store\<close>

record member =
  phoneNumber :: jsstring
  token :: jsstring
  coordinatorPhone :: jsstring
  projectName :: jsstring
  createdAt :: jsstring

text \<open>A coordinator has no \<open>token\<close> field until a login stores one.\<close>

record coordinator =
  phoneNumber :: jsstring
  projectName :: jsstring
  token :: "jsstring option"
  createdAt :: jsstring

text \<open>A project of the external registry, as \<open>listProjects()\<close> returns it.\<close>

record project =
  name :: jsstring

record store =
  coordinators :: "coordinator list"
  members :: "member list"

definition emptyStore :: store where
  "emptyStore = \<lparr>coordinators = [], members = []\<rparr>"

text \<open>
  The database plugin behind \<open>fastify.db\<close> is not among the sources. The
  specification describes it as a synchronous key-value store of coordinator and member
  records, each keyed by its phone number and queryable by phone number and by project
  name; each of its operations below is modelled from that description.
\<close>

text \<open>
  Modelled from the spec: \<open>fastify.db.findCoordinatorByPhone\<close> (database plugin, not
  among the sources), the coordinator record stored at a phone number, if any.
\<close>

definition findCoordinatorByPhone :: "store \<Rightarrow> jsstring \<Rightarrow> coordinator option" where
  "findCoordinatorByPhone db p = find (\<lambda>c. coordinator.phoneNumber c = p) (coordinators db)"

text \<open>
  Modelled from the spec: \<open>fastify.db.findCoordinatorByProject\<close> (database plugin, not
  among the sources), a stored coordinator record with the given project name, if any.
\<close>

definition findCoordinatorByProject :: "store \<Rightarrow> jsstring \<Rightarrow> coordinator option" where
  "findCoordinatorByProject db n = find (\<lambda>c. coordinator.projectName c = n) (coordinators db)"

text \<open>
  Modelled from the spec: \<open>fastify.db.findProjectByCoordinatorPhone\<close> (database plugin,
  not among the sources), the project name bound to the coordinator of a phone number.
\<close>

definition findProjectByCoordinatorPhone :: "store \<Rightarrow> jsstring \<Rightarrow> jsstring option" where
  "findProjectByCoordinatorPhone db p =
     map_option coordinator.projectName (findCoordinatorByPhone db p)"

text \<open>
  Modelled from the spec: \<open>fastify.db.deleteCoordinatorByPhone\<close> (database plugin, not
  among the sources), which removes the record stored at a phone number.
\<close>

definition deleteCoordinatorByPhone :: "store \<Rightarrow> jsstring \<Rightarrow> store" where
  "deleteCoordinatorByPhone db p =
     db\<lparr>coordinators := filter (\<lambda>c. coordinator.phoneNumber c \<noteq> p) (coordinators db)\<rparr>"

text \<open>
  Modelled from the spec: \<open>fastify.db.saveCoordinator\<close> (database plugin, not among the
  sources), which sets the record stored at the record's phone number.
\<close>

definition saveCoordinator :: "store \<Rightarrow> coordinator \<Rightarrow> store" where
  "saveCoordinator db c =
     db\<lparr>coordinators :=
          filter (\<lambda>x. coordinator.phoneNumber x \<noteq> coordinator.phoneNumber c) (coordinators db) @ [c]\<rparr>"

text \<open>
  Modelled from the spec: \<open>fastify.db.findMemberByPhone\<close> (database plugin, not among the
  sources), the member record stored at a phone number, if any.
\<close>

definition findMemberByPhone :: "store \<Rightarrow> jsstring \<Rightarrow> member option" where
  "findMemberByPhone db p = find (\<lambda>m. member.phoneNumber m = p) (members db)"

text \<open>
  Modelled from the spec: \<open>fastify.db.saveMember\<close> (database plugin, not among the
  sources), which sets the record stored at the record's phone number.
\<close>

definition saveMember :: "store \<Rightarrow> member \<Rightarrow> store" where
  "saveMember db m =
     db\<lparr>members :=
          filter (\<lambda>x. member.phoneNumber x \<noteq> member.phoneNumber m) (members db) @ [m]\<rparr>"

text \<open>
  Modelled from the spec: \<open>verifyBearerAuth\<close> lives in \<open>routes/utils.js\<close>, which is not
  among the sources. The specification's Bearer Authenticator compares the credential
  presented in the authorization header with the expected one and fails with Unauthorized
  on a mismatch or an absent header. The argument is the presented credential, \<open>None\<close>
  when the header carries none.
\<close>

definition verifyBearerAuth :: "jsstring option \<Rightarrow> jsstring \<Rightarrow> error + unit" where
  "verifyBearerAuth presented expected =
     (if presented = Some expected then Inr () else Inl (Error Unauthorized None))"

section \<open>The handlers of \<open>routes/auth.js\<close>\<close>

text \<open>
  Each handler takes the store and returns it, updated, with what the handler returns
  (\<open>Inr\<close>) or throws (\<open>Inl\<close>). The projects that \<open>fastify.comapeo.listProjects()\<close>
  returns, the token that \<open>generateToken()\<close> draws and the time
  \<open>new Date().toISOString()\<close> are inputs. Logging does not touch the store. The
  pre-handler of the first three routes checks the server's bearer token before the handler
  runs; a request it rejects never reaches the handler or the store, so the functions below
  are the handlers themselves.
\<close>

text \<open>\<open>POST /auth/register\<close>; returns \<open>{phoneNumber, projectName}\<close>.\<close>

definition register ::
  "store \<Rightarrow> project list \<Rightarrow> jsstring \<Rightarrow> jsstring \<Rightarrow> jsstring
     \<Rightarrow> store \<times> (error + jsstring \<times> jsstring)" where
  "register db projects phone pname now =
     (case decodeURIComponent pname of
        Inl e \<Rightarrow> (db, Inl e)
      | Inr decodedProjectName \<Rightarrow>
          (let db1 = (case findCoordinatorByPhone db phone of
                        Some existingCoordinator \<Rightarrow> deleteCoordinatorByPhone db phone
                      | None \<Rightarrow> db)
           in case findCoordinatorByProject db1 decodedProjectName of
                Some existingProjectCoordinator \<Rightarrow>
                  (db1, Inl (conflictError ''Project name already exists''))
              | None \<Rightarrow>
                  (case find (\<lambda>p. name p = decodedProjectName) projects of
                     Some existingProject \<Rightarrow>
                       (db1, Inl (conflictError ''Project name already exists''))
                   | None \<Rightarrow>
                       (let coordinator =
                              \<lparr>coordinator.phoneNumber = phone,
                               coordinator.projectName = decodedProjectName,
                               coordinator.token = None,
                               coordinator.createdAt = now\<rparr>
                        in (saveCoordinator db1 coordinator,
                            Inr (coordinator.phoneNumber coordinator,
                                 coordinator.projectName coordinator))))))"

text \<open>\<open>DELETE /auth/unregister\<close>; returns the confirmation message.\<close>

definition unregister :: "store \<Rightarrow> jsstring \<Rightarrow> store \<times> (error + string)" where
  "unregister db phone =
     (case findCoordinatorByPhone db phone of
        None \<Rightarrow> (db, Inl (notFoundError ''Coordinator not found''))
      | Some coordinator \<Rightarrow>
          (deleteCoordinatorByPhone db phone, Inr ''Coordinator successfully unregistered''))"

text \<open>\<open>POST /auth/coordinator\<close>; returns \<open>{token, projectName}\<close>.\<close>

definition login ::
  "store \<Rightarrow> project list \<Rightarrow> jsstring \<Rightarrow> jsstring \<Rightarrow> jsstring \<Rightarrow> jsstring
     \<Rightarrow> store \<times> (error + jsstring \<times> jsstring)" where
  "login db projects phone pname newToken now =
     (case findCoordinatorByPhone db phone of
        None \<Rightarrow> (db, Inl (unauthorizedError ''Invalid phone number or project name''))
      | Some coordinator \<Rightarrow>
          if coordinator.projectName coordinator \<noteq> pname
          then (db, Inl (unauthorizedError ''Invalid phone number or project name''))
          else case decodeURIComponent (coordinator.projectName coordinator) of
              Inl e \<Rightarrow> (db, Inl e)
            | Inr decodedProjectName \<Rightarrow>
                (case find (\<lambda>p. name p = decodedProjectName) projects of
                   None \<Rightarrow> (db, Inl projectNotFoundError)
                 | Some project \<Rightarrow>
                     (saveCoordinator db
                        (coordinator\<lparr>coordinator.token := Some newToken,
                                      coordinator.createdAt := now\<rparr>),
                      Inr (newToken, coordinator.projectName coordinator))))"

text \<open>
  \<open>POST /auth/member\<close>; returns \<open>{token, projectName}\<close>. \<open>authorization\<close> is the
  credential presented with the request. The \<open>try\<close>/\<open>catch\<close> around the body logs and
  rethrows the same error.
\<close>

definition delegateMember ::
  "store \<Rightarrow> jsstring \<Rightarrow> jsstring \<Rightarrow> jsstring option \<Rightarrow> jsstring \<Rightarrow> jsstring
     \<Rightarrow> store \<times> (error + jsstring \<times> jsstring)" where
  "delegateMember db coordPhoneNumber memberPhoneNumber authorization memberToken now =
     (case findCoordinatorByPhone db coordPhoneNumber of
        None \<Rightarrow> (db, Inl (unauthorizedError ''Invalid coordinator phone number''))
      | Some coordinator \<Rightarrow>
          (case coordinator.token coordinator of
             None \<Rightarrow> (db, Inl (unauthorizedError ''Invalid coordinator phone number''))
           | Some coordinatorToken \<Rightarrow>
               if \<not> truthy coordinatorToken
               then (db, Inl (unauthorizedError ''Invalid coordinator phone number''))
               else case findProjectByCoordinatorPhone db coordPhoneNumber of
                   None \<Rightarrow> (db, Inl (unauthorizedError ''No project found for coordinator''))
                 | Some pname \<Rightarrow>
                     if \<not> truthy pname
                     then (db, Inl (unauthorizedError ''No project found for coordinator''))
                     else case verifyBearerAuth authorization coordinatorToken of
                         Inl e \<Rightarrow> (db, Inl e)
                       | Inr _ \<Rightarrow>
                           if \<not> test phonePattern memberPhoneNumber
                           then (db, Inl (badRequestError ''Invalid phone number format''))
                           else case findMemberByPhone db memberPhoneNumber of
                               Some existingMember \<Rightarrow>
                                 (db, Inl (badRequestError ''Phone number already registered''))
                             | None \<Rightarrow>
                                 (saveMember db
                                    \<lparr>member.phoneNumber = memberPhoneNumber,
                                     member.token = memberToken,
                                     member.coordinatorPhone = coordinator.phoneNumber coordinator,
                                     member.projectName = pname,
                                     member.createdAt = now\<rparr>,
                                  Inr (memberToken, pname))))"

section \<open>Reachable stores\<close>

text \<open>
  The store starts empty and changes only through the four handlers, called with any
  arguments, any list of registry projects, any generated token and any time.
\<close>

inductive reachable :: "store \<Rightarrow> bool" where
  initial: "reachable emptyStore"
| registered:
    "reachable db \<Longrightarrow> register db projects phone pname now = (db', r) \<Longrightarrow> reachable db'"
| unregistered:
    "reachable db \<Longrightarrow> unregister db phone = (db', u) \<Longrightarrow> reachable db'"
| loggedIn:
    "reachable db \<Longrightarrow> login db projects phone pname newToken now = (db', r) \<Longrightarrow> reachable db'"
| delegated:
    "reachable db \<Longrightarrow>
     delegateMember db coordPhoneNumber memberPhoneNumber authorization memberToken now = (db', r) \<Longrightarrow>
     reachable db'"

text \<open>
  No two coordinator records of the store share a phone number, and no two share a
  project name.
\<close>

definition uniqueCoordinators :: "store \<Rightarrow> bool" where
  "uniqueCoordinators db =
     (distinct (map coordinator.phoneNumber (coordinators db)) \<and>
      distinct (map coordinator.projectName (coordinators db)))"

section \<open>Facts about the built-ins and the store\<close>

lemma continuationBytes_numeral [simp]:
  "continuationBytes (numeral k) [] = None"
  "continuationBytes (numeral k) (c # s) =
     (if c \<noteq> 0x25 then None
      else case ParseHexOctet s of None \<Rightarrow> None
        | Some (b, s') \<Rightarrow>
            (case continuationBytes (pred_numeral k) s' of None \<Rightarrow> None
             | Some (bs, r) \<Rightarrow> Some (b # bs, r)))"
  by (simp_all add: numeral_eq_Suc)

text \<open>The built-in on multi-byte escapes, on a surrogate and on an overlong form.\<close>

lemma decodeURIComponent_three_octets:
  "decodeURIComponent (js ''%E2%82%AC'') = Inr [0x20AC]"
  by (simp add: js_def hexval_def leadingOnes_def utf8CodePoint_def UTF16EncodeCodePoint_def)

lemma decodeURIComponent_surrogate_pair:
  "decodeURIComponent (js ''%F0%9F%98%80'') = Inr [0xD83D, 0xDE00]"
proof -
  have s: "js ''%F0%9F%98%80'' =
      [0x25, 0x46, 0x30, 0x25, 0x39, 0x46, 0x25, 0x39, 0x38, 0x25, 0x38, 0x30]"
    by (simp add: js_def)
  have p: "ParseHexOctet [0x46, 0x30, 0x25, 0x39, 0x46, 0x25, 0x39, 0x38, 0x25, 0x38, 0x30] =
      Some (0xF0, [0x25, 0x39, 0x46, 0x25, 0x39, 0x38, 0x25, 0x38, 0x30])"
    by (simp add: hexval_def)
  have c: "continuationBytes 3 [0x25, 0x39, 0x46, 0x25, 0x39, 0x38, 0x25, 0x38, 0x30] =
      Some ([0x9F, 0x98, 0x80], [])"
    by (simp add: hexval_def)
  have u: "utf8CodePoint 0xF0 [0x9F, 0x98, 0x80] = Some 0x1F600"
    by (simp add: utf8CodePoint_def)
  have e: "UTF16EncodeCodePoint 0x1F600 = [0xD83D, 0xDE00]"
    by (simp add: UTF16EncodeCodePoint_def)
  have l: "leadingOnes 0xF0 = 4"
    by (simp add: leadingOnes_def)
  show ?thesis
    unfolding s by (simp add: p c u e l del: ParseHexOctet.simps continuationBytes_numeral)
qed

lemma decodeURIComponent_rejects_surrogate:
  "decodeURIComponent (js ''%ED%A0%80'') = Inl uriError"
  by (simp add: js_def hexval_def leadingOnes_def utf8CodePoint_def UTF16EncodeCodePoint_def)

lemma decodeURIComponent_rejects_overlong:
  "decodeURIComponent (js ''%C0%80'') = Inl uriError"
  by (simp add: js_def hexval_def leadingOnes_def utf8CodePoint_def UTF16EncodeCodePoint_def)

lemma decodeURIComponent_throws:
  "decodeURIComponent s = Inl e \<Longrightarrow> e = uriError"
proof (induction s rule: decodeURIComponent.induct)
  case 1
  then show ?case by simp
next
  case (2 c s)
  show ?case
  proof (cases "c \<noteq> 0x25")
    case True
    with 2 show ?thesis by (auto split: sum.splits)
  next
    case False
    with 2 show ?thesis
      by (auto simp: Let_def split: option.splits prod.splits sum.splits if_splits)
  qed
qed

lemma decodeURIComponent_plain:
  "0x25 \<notin> set s \<Longrightarrow> decodeURIComponent s = Inr s"
  by (induction s) auto

lemma find_filter_append:
  "P c \<Longrightarrow> find P (filter (\<lambda>x. \<not> P x) xs @ [c]) = Some c"
  by (induction xs) auto

lemma findCoordinatorByPhone_Some:
  "findCoordinatorByPhone db p = Some c \<Longrightarrow>
     c \<in> set (coordinators db) \<and> coordinator.phoneNumber c = p"
  by (auto simp: findCoordinatorByPhone_def find_Some_iff)

lemma findCoordinatorByPhone_None:
  "findCoordinatorByPhone db p = None \<longleftrightarrow>
     (\<forall>c \<in> set (coordinators db). coordinator.phoneNumber c \<noteq> p)"
  by (auto simp: findCoordinatorByPhone_def find_None_iff)

lemma findCoordinatorByProject_None:
  "findCoordinatorByProject db n = None \<longleftrightarrow>
     (\<forall>c \<in> set (coordinators db). coordinator.projectName c \<noteq> n)"
  by (auto simp: findCoordinatorByProject_def find_None_iff)

lemma find_project_None:
  "find (\<lambda>p. name p = d) ps = None \<longleftrightarrow> (\<forall>p \<in> set ps. name p \<noteq> d)"
  by (auto simp: find_None_iff)

lemma findCoordinatorByPhone_delete:
  "findCoordinatorByPhone (deleteCoordinatorByPhone db p) p = None"
  by (simp add: findCoordinatorByPhone_None deleteCoordinatorByPhone_def)

lemma findCoordinatorByPhone_save:
  "findCoordinatorByPhone (saveCoordinator db c) (coordinator.phoneNumber c) = Some c"
  using find_filter_append [of "\<lambda>x. coordinator.phoneNumber x = coordinator.phoneNumber c" c]
  by (simp add: findCoordinatorByPhone_def saveCoordinator_def)

lemma delete_absent:
  "findCoordinatorByPhone db p = None \<Longrightarrow> deleteCoordinatorByPhone db p = db"
  by (simp add: findCoordinatorByPhone_None deleteCoordinatorByPhone_def filter_id_conv)

text \<open>
  The store the conflict check of \<open>register\<close> sees is the one without a record for the
  phone number, whether or not there was one.
\<close>

lemma register_unfold:
  "register db ps P N now =
     (case decodeURIComponent N of
        Inl e \<Rightarrow> (db, Inl e)
      | Inr d \<Rightarrow>
          if (\<exists>c \<in> set (coordinators db). coordinator.phoneNumber c \<noteq> P \<and> coordinator.projectName c = d)
             \<or> (\<exists>p \<in> set ps. name p = d)
          then (deleteCoordinatorByPhone db P, Inl (conflictError ''Project name already exists''))
          else (saveCoordinator (deleteCoordinatorByPhone db P)
                  \<lparr>coordinator.phoneNumber = P, coordinator.projectName = d,
                   coordinator.token = None, coordinator.createdAt = now\<rparr>,
                Inr (P, d)))"
proof (cases "decodeURIComponent N")
  case (Inl e)
  then show ?thesis by (simp add: register_def)
next
  case (Inr d)
  have db1: "(case findCoordinatorByPhone db P of
                Some existingCoordinator \<Rightarrow> deleteCoordinatorByPhone db P
              | None \<Rightarrow> db) = deleteCoordinatorByPhone db P"
    by (auto simp: delete_absent split: option.splits)
  have held: "findCoordinatorByProject (deleteCoordinatorByPhone db P) d = None \<longleftrightarrow>
      \<not> (\<exists>c \<in> set (coordinators db). coordinator.phoneNumber c \<noteq> P \<and> coordinator.projectName c = d)"
    by (auto simp: findCoordinatorByProject_None deleteCoordinatorByPhone_def)
  show ?thesis
  proof (cases "findCoordinatorByProject (deleteCoordinatorByPhone db P) d")
    case None
    then show ?thesis
      using held find_project_None [of d ps] Inr
      by (cases "find (\<lambda>p. name p = d) ps") (simp_all add: register_def db1)
  next
    case (Some x)
    then show ?thesis
      using held Inr by (simp add: register_def db1)
  qed
qed

lemma find_project_Some:
  "find (\<lambda>p. name p = d) ps = Some x \<Longrightarrow> \<exists>p \<in> set ps. name p = d"
  by (auto simp: find_Some_iff)

lemma login_unfold:
  "findCoordinatorByPhone db P = Some c \<Longrightarrow>
   login db ps P N tok now =
     (if coordinator.projectName c \<noteq> N
      then (db, Inl (unauthorizedError ''Invalid phone number or project name''))
      else case decodeURIComponent (coordinator.projectName c) of
          Inl e \<Rightarrow> (db, Inl e)
        | Inr d \<Rightarrow>
            if \<exists>p \<in> set ps. name p = d
            then (saveCoordinator db (c\<lparr>coordinator.token := Some tok, coordinator.createdAt := now\<rparr>),
                  Inr (tok, coordinator.projectName c))
            else (db, Inl projectNotFoundError))"
  by (auto simp: login_def find_project_None split: sum.splits option.splits
        dest: find_project_Some)

lemma register_success:
  assumes "register db ps P N now = (db', Inr r)"
  shows "\<exists>d. decodeURIComponent N = Inr d \<and> r = (P, d) \<and>
           db' = saveCoordinator (deleteCoordinatorByPhone db P)
                   \<lparr>coordinator.phoneNumber = P, coordinator.projectName = d,
                    coordinator.token = None, coordinator.createdAt = now\<rparr> \<and>
           findCoordinatorByPhone db' P =
             Some \<lparr>coordinator.phoneNumber = P, coordinator.projectName = d,
                   coordinator.token = None, coordinator.createdAt = now\<rparr>"
proof (cases "decodeURIComponent N")
  case (Inl e)
  with assms show ?thesis by (simp add: register_unfold)
next
  case (Inr d)
  let ?c = "\<lparr>coordinator.phoneNumber = P, coordinator.projectName = d,
             coordinator.token = None, coordinator.createdAt = now\<rparr>"
  from assms Inr have "r = (P, d)" and "db' = saveCoordinator (deleteCoordinatorByPhone db P) ?c"
    by (auto simp: register_unfold split: if_splits)
  moreover have "findCoordinatorByPhone (saveCoordinator (deleteCoordinatorByPhone db P) ?c) P = Some ?c"
    using findCoordinatorByPhone_save [of "deleteCoordinatorByPhone db P" ?c] by simp
  ultimately show ?thesis using Inr by simp
qed

lemma login_failure_store:
  "login db ps P N tok now = (db', Inl e) \<Longrightarrow> db' = db"
  by (auto simp: login_def split: option.splits sum.splits if_splits)
lemma repeatEnds_digits:
  "[] \<in> set (repeatEnds (ends (Range 0x30 0x39)) lo hi s)
     \<longleftrightarrow> lo \<le> length s \<and> length s \<le> hi \<and> list_all isDigit s"
proof (induction hi arbitrary: lo s)
  case 0
  show ?case by auto
next
  case (Suc hi)
  show ?case
  proof (cases s)
    case Nil
    then show ?thesis by auto
  next
    case (Cons x r)
    show ?thesis
    proof (cases "isDigit x")
      case True
      then have "ends (Range 0x30 0x39) s = [r]"
        using Cons by (simp add: isDigit_def)
      then show ?thesis
        using Suc.IH [of "lo - 1" r] Cons True by auto
    next
      case False
      then have "ends (Range 0x30 0x39) s = []"
        using Cons by (simp add: isDigit_def)
      then show ?thesis
        using Cons False by auto
    qed
  qed
qed

text \<open>The pattern of the source accepts exactly the strings of the specification's format.\<close>

lemma test_phonePattern: "test phonePattern s \<longleftrightarrow> e164Like s"
proof -
  have rest: "[] \<in> set (ends (Seq (Range 0x31 0x39) (Repeat 1 14 (Range 0x30 0x39))) t)
      \<longleftrightarrow> (case t of [] \<Rightarrow> False
           | d # ds \<Rightarrow> 0x31 \<le> d \<and> d \<le> 0x39 \<and> 1 \<le> length ds \<and> length ds \<le> 14 \<and> list_all isDigit ds)"
    for t
    using repeatEnds_digits [of 1 14] by (cases t) simp_all
  show ?thesis
  proof (cases s)
    case Nil
    then show ?thesis
      using rest [of "[]"] by (simp add: test_def phonePattern_def e164Like_def)
  next
    case (Cons c r)
    show ?thesis
    proof (cases "c = 0x2B")
      case True
      have "\<not> [] \<in> set (ends (Seq (Range 0x31 0x39) (Repeat 1 14 (Range 0x30 0x39))) s)"
        using Cons True by simp
      then show ?thesis
        using rest [of r] Cons True
        by (simp add: test_def phonePattern_def e164Like_def)
    next
      case False
      then show ?thesis
        using rest [of s] Cons
        by (simp add: test_def phonePattern_def e164Like_def)
    qed
  qed
qed

lemma findMemberByPhone_None:
  "findMemberByPhone db p = None \<longleftrightarrow> (\<forall>m \<in> set (members db). member.phoneNumber m \<noteq> p)"
  by (auto simp: findMemberByPhone_def find_None_iff)

lemma saveMember_new:
  "findMemberByPhone db (member.phoneNumber m) = None \<Longrightarrow>
     saveMember db m = db\<lparr>members := members db @ [m]\<rparr>"
  by (simp add: findMemberByPhone_None saveMember_def filter_id_conv)

text \<open>The member route as one chain of checks, once the coordinator is found.\<close>

lemma delegateMember_unfold:
  assumes "findCoordinatorByPhone db cp = Some c"
  shows "delegateMember db cp mp auth tok now =
     (if coordinator.token c = None \<or> coordinator.token c = Some []
      then (db, Inl (unauthorizedError ''Invalid coordinator phone number''))
      else if coordinator.projectName c = []
      then (db, Inl (unauthorizedError ''No project found for coordinator''))
      else if auth \<noteq> coordinator.token c
      then (db, Inl (Error Unauthorized None))
      else if \<not> e164Like mp
      then (db, Inl (badRequestError ''Invalid phone number format''))
      else if findMemberByPhone db mp \<noteq> None
      then (db, Inl (badRequestError ''Phone number already registered''))
      else (db\<lparr>members := members db @
                 [\<lparr>member.phoneNumber = mp, member.token = tok, member.coordinatorPhone = cp,
                   member.projectName = coordinator.projectName c, member.createdAt = now\<rparr>]\<rparr>,
            Inr (tok, coordinator.projectName c)))"
proof -
  have phone: "coordinator.phoneNumber c = cp"
    using findCoordinatorByPhone_Some [OF assms] by simp
  have project: "findProjectByCoordinatorPhone db cp = Some (coordinator.projectName c)"
    using assms by (simp add: findProjectByCoordinatorPhone_def)
  have new: "findMemberByPhone db mp = None \<Longrightarrow>
      saveMember db \<lparr>member.phoneNumber = mp, member.token = tok, member.coordinatorPhone = cp,
                   member.projectName = pn, member.createdAt = now\<rparr> =
      db\<lparr>members := members db @
                 [\<lparr>member.phoneNumber = mp, member.token = tok, member.coordinatorPhone = cp,
                   member.projectName = pn, member.createdAt = now\<rparr>]\<rparr>" for pn
    using saveMember_new [of db "\<lparr>member.phoneNumber = mp, member.token = tok, member.coordinatorPhone = cp,
                   member.projectName = pn, member.createdAt = now\<rparr>"] by simp
  show ?thesis
    using assms phone project new
    by (auto simp: delegateMember_def truthy_def verifyBearerAuth_def test_phonePattern
          split: option.splits sum.splits)
qed

lemma delegateMember_absent:
  "findCoordinatorByPhone db cp = None \<Longrightarrow>
     delegateMember db cp mp auth tok now =
       (db, Inl (unauthorizedError ''Invalid coordinator phone number''))"
  by (simp add: delegateMember_def)

lemma failed_delegateMember_store:
  "delegateMember db cp mp auth tok now = (db', Inl e) \<Longrightarrow> db' = db"
  by (cases "findCoordinatorByPhone db cp")
     (auto simp: delegateMember_absent delegateMember_unfold split: if_splits)

lemma delegateMember_coordinators:
  "delegateMember db cp mp auth tok now = (db', r) \<Longrightarrow> coordinators db' = coordinators db"
  by (cases "findCoordinatorByPhone db cp")
     (auto simp: delegateMember_absent delegateMember_unfold split: if_splits)

lemma uniqueCoordinators_delete:
  "uniqueCoordinators db \<Longrightarrow> uniqueCoordinators (deleteCoordinatorByPhone db p)"
  by (simp add: uniqueCoordinators_def deleteCoordinatorByPhone_def distinct_map_filter)

lemma uniqueCoordinators_save:
  assumes "uniqueCoordinators db"
    and "\<forall>x \<in> set (coordinators db).
           coordinator.phoneNumber x \<noteq> coordinator.phoneNumber c \<longrightarrow>
           coordinator.projectName x \<noteq> coordinator.projectName c"
  shows "uniqueCoordinators (saveCoordinator db c)"
  using assms
  by (auto simp: uniqueCoordinators_def saveCoordinator_def distinct_map_filter)

lemma uniqueCoordinators_register:
  assumes "uniqueCoordinators db" and "register db ps P N now = (db', r)"
  shows "uniqueCoordinators db'"
proof (cases "decodeURIComponent N")
  case (Inl e)
  with assms show ?thesis by (simp add: register_unfold)
next
  case (Inr d)
  let ?c = "\<lparr>coordinator.phoneNumber = P, coordinator.projectName = d,
             coordinator.token = None, coordinator.createdAt = now\<rparr>"
  show ?thesis
  proof (cases "(\<exists>c \<in> set (coordinators db). coordinator.phoneNumber c \<noteq> P \<and> coordinator.projectName c = d)
             \<or> (\<exists>p \<in> set ps. name p = d)")
    case True
    with assms Inr show ?thesis
      by (auto simp: register_unfold uniqueCoordinators_delete)
  next
    case False
    then have "\<forall>x \<in> set (coordinators (deleteCoordinatorByPhone db P)).
        coordinator.phoneNumber x \<noteq> coordinator.phoneNumber ?c \<longrightarrow>
        coordinator.projectName x \<noteq> coordinator.projectName ?c"
      by (auto simp: deleteCoordinatorByPhone_def)
    then have "uniqueCoordinators (saveCoordinator (deleteCoordinatorByPhone db P) ?c)"
      using uniqueCoordinators_delete [OF assms(1)] by (rule uniqueCoordinators_save [rotated])
    with assms Inr False show ?thesis
      by (auto simp: register_unfold)
  qed
qed

lemma uniqueCoordinators_unregister:
  "uniqueCoordinators db \<Longrightarrow> unregister db P = (db', u) \<Longrightarrow> uniqueCoordinators db'"
  by (auto simp: unregister_def uniqueCoordinators_delete split: option.splits)

lemma uniqueCoordinators_login:
  assumes "uniqueCoordinators db" and "login db ps P N tok now = (db', r)"
  shows "uniqueCoordinators db'"
proof (cases r)
  case (Inl e)
  with assms show ?thesis by (auto dest: login_failure_store)
next
  case (Inr t)
  show ?thesis
  proof (cases "findCoordinatorByPhone db P")
    case None
    with assms show ?thesis by (simp add: login_def)
  next
    case (Some c)
    let ?c' = "c\<lparr>coordinator.token := Some tok, coordinator.createdAt := now\<rparr>"
    have c: "c \<in> set (coordinators db)" "coordinator.phoneNumber c = P"
      using findCoordinatorByPhone_Some [OF Some] by simp_all
    have "inj_on coordinator.projectName (set (coordinators db))"
      using assms(1) by (simp add: uniqueCoordinators_def distinct_map)
    then have "\<forall>x \<in> set (coordinators db).
        coordinator.phoneNumber x \<noteq> coordinator.phoneNumber ?c' \<longrightarrow>
        coordinator.projectName x \<noteq> coordinator.projectName ?c'"
      using c by (auto dest: inj_onD)
    then have "uniqueCoordinators (saveCoordinator db ?c')"
      using assms(1) by (rule uniqueCoordinators_save [rotated])
    moreover have "db' = saveCoordinator db ?c'"
      using assms(2) Inr by (auto simp: login_unfold [OF Some] split: if_splits sum.splits)
    ultimately show ?thesis by simp
  qed
qed

lemma uniqueCoordinators_delegateMember:
  "uniqueCoordinators db \<Longrightarrow> delegateMember db cp mp auth tok now = (db', r) \<Longrightarrow>
     uniqueCoordinators db'"
  by (auto simp: uniqueCoordinators_def dest: delegateMember_coordinators)

section \<open>Claims\<close>

text \<open>
  C1, as amended. For a phone number \<open>P\<close> that already has a record, and a name
  \<open>N\<close> that percent-decodes to \<open>d\<close>, \<open>register(P, N)\<close> deletes the record of
  \<open>P\<close> before the conflict check, so that record itself never causes a Conflict: the call
  fails with Conflict exactly when a record of another phone number holds \<open>d\<close> or the
  registry lists \<open>d\<close>, and then no record is left for \<open>P\<close>. Otherwise it succeeds,
  and after it exactly one coordinator record exists for \<open>P\<close>, bound to \<open>d\<close>, with no
  token and the current time as \<open>createdAt\<close>, the records of the other phone numbers
  being as before.
\<close>

theorem register_rebinds:
  assumes "findCoordinatorByPhone db P = Some c" and "decodeURIComponent N = Inr d"
  shows "((\<exists>x \<in> set (coordinators db). coordinator.phoneNumber x \<noteq> P \<and> coordinator.projectName x = d) \<or>
          (\<exists>p \<in> set ps. name p = d) \<longrightarrow>
            register db ps P N now =
              (deleteCoordinatorByPhone db P, Inl (conflictError ''Project name already exists'')) \<and>
            findCoordinatorByPhone (fst (register db ps P N now)) P = None) \<and>
         (\<not> ((\<exists>x \<in> set (coordinators db). coordinator.phoneNumber x \<noteq> P \<and> coordinator.projectName x = d) \<or>
             (\<exists>p \<in> set ps. name p = d)) \<longrightarrow>
            snd (register db ps P N now) = Inr (P, d) \<and>
            filter (\<lambda>x. coordinator.phoneNumber x = P) (coordinators (fst (register db ps P N now))) =
              [\<lparr>coordinator.phoneNumber = P, coordinator.projectName = d,
                coordinator.token = None, coordinator.createdAt = now\<rparr>] \<and>
            filter (\<lambda>x. coordinator.phoneNumber x \<noteq> P) (coordinators (fst (register db ps P N now))) =
              filter (\<lambda>x. coordinator.phoneNumber x \<noteq> P) (coordinators db))"
proof -
  let ?new = "\<lparr>coordinator.phoneNumber = P, coordinator.projectName = d,
              coordinator.token = None, coordinator.createdAt = now\<rparr>"
  have only: "filter (\<lambda>x. coordinator.phoneNumber x = P)
        (coordinators (saveCoordinator (deleteCoordinatorByPhone db P) ?new)) = [?new]"
    by (simp add: saveCoordinator_def deleteCoordinatorByPhone_def)
  have others: "filter (\<lambda>x. coordinator.phoneNumber x \<noteq> P)
        (coordinators (saveCoordinator (deleteCoordinatorByPhone db P) ?new)) =
      filter (\<lambda>x. coordinator.phoneNumber x \<noteq> P) (coordinators db)"
    by (simp add: saveCoordinator_def deleteCoordinatorByPhone_def)
  show ?thesis
    using assms(2) only others findCoordinatorByPhone_delete [of db P]
    by (simp add: register_unfold)
qed

text \<open>
  C1 as amended, at a logged-in coordinator who registers again under the name it holds,
  while the registry does not list that name.
\<close>

theorem register_rebinds_witness:
  "register
     \<lparr>coordinators =
        [\<lparr>coordinator.phoneNumber = js ''+15550001'', coordinator.projectName = js ''Alpha'',
          coordinator.token = Some (js ''tok''), coordinator.createdAt = js ''t0''\<rparr>],
      members = []\<rparr> [\<lparr>name = js ''Gamma''\<rparr>] (js ''+15550001'') (js ''Alpha'') (js ''t1'') =
     (\<lparr>coordinators =
        [\<lparr>coordinator.phoneNumber = js ''+15550001'', coordinator.projectName = js ''Alpha'',
          coordinator.token = None, coordinator.createdAt = js ''t1''\<rparr>],
      members = []\<rparr>, Inr (js ''+15550001'', js ''Alpha'')) \<and>
   filter (\<lambda>x. coordinator.phoneNumber x = js ''+15550001'')
     (coordinators (fst (register
       \<lparr>coordinators =
          [\<lparr>coordinator.phoneNumber = js ''+15550001'', coordinator.projectName = js ''Alpha'',
            coordinator.token = Some (js ''tok''), coordinator.createdAt = js ''t0''\<rparr>],
        members = []\<rparr> [\<lparr>name = js ''Gamma''\<rparr>] (js ''+15550001'') (js ''Alpha'') (js ''t1'')))) =
     [\<lparr>coordinator.phoneNumber = js ''+15550001'', coordinator.projectName = js ''Alpha'',
       coordinator.token = None, coordinator.createdAt = js ''t1''\<rparr>]"
proof -
  let ?c = "\<lparr>coordinator.phoneNumber = js ''+15550001'', coordinator.projectName = js ''Alpha'',
          coordinator.token = Some (js ''tok''), coordinator.createdAt = js ''t0''\<rparr>"
  let ?db = "\<lparr>coordinators = [?c], members = []\<rparr>"
  have h1: "findCoordinatorByPhone ?db (js ''+15550001'') = Some ?c"
    by code_simp
  have h2: "decodeURIComponent (js ''Alpha'') = Inr (js ''Alpha'')"
    by code_simp
  have h3: "\<not> ((\<exists>x \<in> set (coordinators ?db).
                coordinator.phoneNumber x \<noteq> js ''+15550001'' \<and> coordinator.projectName x = js ''Alpha'') \<or>
             (\<exists>p \<in> set [\<lparr>name = js ''Gamma''\<rparr>]. name p = js ''Alpha''))"
    by code_simp
  have e: "register ?db [\<lparr>name = js ''Gamma''\<rparr>] (js ''+15550001'') (js ''Alpha'') (js ''t1'') =
     (\<lparr>coordinators =
        [\<lparr>coordinator.phoneNumber = js ''+15550001'', coordinator.projectName = js ''Alpha'',
          coordinator.token = None, coordinator.createdAt = js ''t1''\<rparr>],
      members = []\<rparr>, Inr (js ''+15550001'', js ''Alpha''))"
    by code_simp
  show ?thesis
    using register_rebinds [OF h1 h2, THEN conjunct2, THEN mp, OF h3, THEN conjunct2, THEN conjunct1] e
    by (intro conjI)
qed

text \<open>
  C1 as stated fails: a coordinator bound to \<open>"Alpha"\<close> registers again under
  \<open>"Alpha"\<close> while the registry lists a project of that name. The call fails with
  Conflict, and afterwards the store has no record for that phone number.
\<close>

theorem register_own_name_counterexample:
  "findCoordinatorByPhone
     \<lparr>coordinators =
        [\<lparr>coordinator.phoneNumber = js ''+15550001'', coordinator.projectName = js ''Alpha'',
          coordinator.token = Some (js ''tok''), coordinator.createdAt = js ''t0''\<rparr>],
      members = []\<rparr> (js ''+15550001'') =
     Some \<lparr>coordinator.phoneNumber = js ''+15550001'', coordinator.projectName = js ''Alpha'',
           coordinator.token = Some (js ''tok''), coordinator.createdAt = js ''t0''\<rparr> \<and>
   register
     \<lparr>coordinators =
        [\<lparr>coordinator.phoneNumber = js ''+15550001'', coordinator.projectName = js ''Alpha'',
          coordinator.token = Some (js ''tok''), coordinator.createdAt = js ''t0''\<rparr>],
      members = []\<rparr> [\<lparr>name = js ''Alpha''\<rparr>] (js ''+15550001'') (js ''Alpha'') (js ''t1'') =
     (\<lparr>coordinators = [], members = []\<rparr>, Inl (conflictError ''Project name already exists''))"
  by code_simp

text \<open>
  C2. In every store reachable from the empty one through \<open>register\<close>,
  \<open>unregister\<close>, \<open>login\<close> and \<open>delegateMember\<close>, no two coordinator records have
  the same phone number and no two have the same project name. A \<open>register\<close> that
  succeeds has checked that, with the caller's own record removed, no remaining coordinator
  holds the decoded name and no project of the registry has it.
\<close>

theorem reachable_unique_coordinators:
  assumes "reachable db"
  shows "distinct (map coordinator.phoneNumber (coordinators db)) \<and>
         distinct (map coordinator.projectName (coordinators db)) \<and>
         (register db ps P N now = (db', Inr (P', d)) \<longrightarrow>
            (\<forall>c \<in> set (coordinators (deleteCoordinatorByPhone db P)). coordinator.projectName c \<noteq> d) \<and>
            (\<forall>p \<in> set ps. name p \<noteq> d))"
proof -
  from assms have "uniqueCoordinators db"
  proof induction
    case initial
    show ?case by (simp add: uniqueCoordinators_def emptyStore_def)
  next
    case (registered db projects phone pname now db' r)
    then show ?case by (auto dest: uniqueCoordinators_register)
  next
    case (unregistered db phone db' u)
    then show ?case by (auto dest: uniqueCoordinators_unregister)
  next
    case (loggedIn db projects phone pname newToken now db' r)
    then show ?case by (auto dest: uniqueCoordinators_login)
  next
    case (delegated db coordPhoneNumber memberPhoneNumber authorization memberToken now db' r)
    then show ?case by (auto dest: uniqueCoordinators_delegateMember)
  qed
  moreover have "register db ps P N now = (db', Inr (P', d)) \<longrightarrow>
            (\<forall>c \<in> set (coordinators (deleteCoordinatorByPhone db P)). coordinator.projectName c \<noteq> d) \<and>
            (\<forall>p \<in> set ps. name p \<noteq> d)"
    by (cases "decodeURIComponent N")
       (auto simp: register_unfold deleteCoordinatorByPhone_def split: if_splits)
  ultimately show ?thesis by (simp add: uniqueCoordinators_def)
qed

text \<open>
  C2, at the store reached by registering two coordinators and registering the first one
  again under a new name.
\<close>

theorem reachable_unique_coordinators_witness:
  "reachable
     \<lparr>coordinators =
        [\<lparr>coordinator.phoneNumber = js ''+15550002'', coordinator.projectName = js ''Beta'',
          coordinator.token = None, coordinator.createdAt = js ''t1''\<rparr>,
         \<lparr>coordinator.phoneNumber = js ''+15550001'', coordinator.projectName = js ''Gamma'',
          coordinator.token = None, coordinator.createdAt = js ''t2''\<rparr>],
      members = []\<rparr> \<and>
   distinct (map coordinator.phoneNumber
     [\<lparr>coordinator.phoneNumber = js ''+15550002'', coordinator.projectName = js ''Beta'',
       coordinator.token = None, coordinator.createdAt = js ''t1''\<rparr>,
      \<lparr>coordinator.phoneNumber = js ''+15550001'', coordinator.projectName = js ''Gamma'',
       coordinator.token = None, coordinator.createdAt = js ''t2''\<rparr>]) \<and>
   distinct (map coordinator.projectName
     [\<lparr>coordinator.phoneNumber = js ''+15550002'', coordinator.projectName = js ''Beta'',
       coordinator.token = None, coordinator.createdAt = js ''t1''\<rparr>,
      \<lparr>coordinator.phoneNumber = js ''+15550001'', coordinator.projectName = js ''Gamma'',
       coordinator.token = None, coordinator.createdAt = js ''t2''\<rparr>])"
proof -
  let ?a = "\<lparr>coordinator.phoneNumber = js ''+15550001'', coordinator.projectName = js ''Alpha'',
          coordinator.token = None, coordinator.createdAt = js ''t0''\<rparr>"
  let ?b = "\<lparr>coordinator.phoneNumber = js ''+15550002'', coordinator.projectName = js ''Beta'',
          coordinator.token = None, coordinator.createdAt = js ''t1''\<rparr>"
  let ?g = "\<lparr>coordinator.phoneNumber = js ''+15550001'', coordinator.projectName = js ''Gamma'',
          coordinator.token = None, coordinator.createdAt = js ''t2''\<rparr>"
  have s1: "register emptyStore [] (js ''+15550001'') (js ''Alpha'') (js ''t0'') =
      (\<lparr>coordinators = [?a], members = []\<rparr>, Inr (js ''+15550001'', js ''Alpha''))"
    by code_simp
  have s2: "register \<lparr>coordinators = [?a], members = []\<rparr> [] (js ''+15550002'') (js ''Beta'') (js ''t1'') =
      (\<lparr>coordinators = [?a, ?b], members = []\<rparr>, Inr (js ''+15550002'', js ''Beta''))"
    by code_simp
  have s3: "register \<lparr>coordinators = [?a, ?b], members = []\<rparr> [] (js ''+15550001'') (js ''Gamma'') (js ''t2'') =
      (\<lparr>coordinators = [?b, ?g], members = []\<rparr>, Inr (js ''+15550001'', js ''Gamma''))"
    by code_simp
  have r: "reachable \<lparr>coordinators = [?b, ?g], members = []\<rparr>"
    by (rule registered [OF registered [OF registered [OF initial s1] s2] s3])
  show ?thesis
    using reachable_unique_coordinators [OF r] r by simp
qed

text \<open>
  C3. \<open>register(P, N)\<close> fails with Conflict exactly when \<open>N\<close> percent-decodes and,
  with the record of \<open>P\<close> removed, a remaining coordinator holds the decoded name or a
  project of the registry has it. When it so fails, the store is the one with the record of
  \<open>P\<close> deleted: a record \<open>P\<close> had before is not restored.
\<close>

theorem register_conflict:
  "((\<exists>e. snd (register db ps P N now) = Inl e \<and> kind e = Conflict) \<longleftrightarrow>
      (\<exists>d. decodeURIComponent N = Inr d \<and>
           ((\<exists>c \<in> set (coordinators (deleteCoordinatorByPhone db P)). coordinator.projectName c = d) \<or>
            (\<exists>p \<in> set ps. name p = d)))) \<and>
   ((\<exists>e. snd (register db ps P N now) = Inl e \<and> kind e = Conflict) \<longrightarrow>
      fst (register db ps P N now) = deleteCoordinatorByPhone db P \<and>
      findCoordinatorByPhone (fst (register db ps P N now)) P = None)"
proof (cases "decodeURIComponent N")
  case (Inl e)
  then have "e = uriError" by (rule decodeURIComponent_throws)
  with Inl show ?thesis by (simp add: register_unfold)
next
  case (Inr d)
  have remaining:
    "(\<exists>c \<in> set (coordinators (deleteCoordinatorByPhone db P)). coordinator.projectName c = d) \<longleftrightarrow>
     (\<exists>c \<in> set (coordinators db). coordinator.phoneNumber c \<noteq> P \<and> coordinator.projectName c = d)"
    by (auto simp: deleteCoordinatorByPhone_def)
  show ?thesis
    using Inr findCoordinatorByPhone_delete [of db P]
    by (simp add: register_unfold remaining)
qed

text \<open>
  C3, at a coordinator bound to \<open>"Alpha"\<close> who asks for the name another one holds.
\<close>

theorem register_conflict_witness:
  "snd (register
     \<lparr>coordinators =
        [\<lparr>coordinator.phoneNumber = js ''+15550001'', coordinator.projectName = js ''Alpha'',
          coordinator.token = Some (js ''tok''), coordinator.createdAt = js ''t0''\<rparr>,
         \<lparr>coordinator.phoneNumber = js ''+15550002'', coordinator.projectName = js ''Shared'',
          coordinator.token = None, coordinator.createdAt = js ''t0''\<rparr>],
      members = []\<rparr> [] (js ''+15550001'') (js ''Shared'') (js ''t1'')) =
     Inl (conflictError ''Project name already exists'') \<and>
   findCoordinatorByPhone (fst (register
     \<lparr>coordinators =
        [\<lparr>coordinator.phoneNumber = js ''+15550001'', coordinator.projectName = js ''Alpha'',
          coordinator.token = Some (js ''tok''), coordinator.createdAt = js ''t0''\<rparr>,
         \<lparr>coordinator.phoneNumber = js ''+15550002'', coordinator.projectName = js ''Shared'',
          coordinator.token = None, coordinator.createdAt = js ''t0''\<rparr>],
      members = []\<rparr> [] (js ''+15550001'') (js ''Shared'') (js ''t1''))) (js ''+15550001'') = None"
proof -
  let ?db = "\<lparr>coordinators =
        [\<lparr>coordinator.phoneNumber = js ''+15550001'', coordinator.projectName = js ''Alpha'',
          coordinator.token = Some (js ''tok''), coordinator.createdAt = js ''t0''\<rparr>,
         \<lparr>coordinator.phoneNumber = js ''+15550002'', coordinator.projectName = js ''Shared'',
          coordinator.token = None, coordinator.createdAt = js ''t0''\<rparr>],
      members = []\<rparr>"
  have h: "snd (register ?db [] (js ''+15550001'') (js ''Shared'') (js ''t1'')) =
      Inl (conflictError ''Project name already exists'')"
    by code_simp
  then have "\<exists>e. snd (register ?db [] (js ''+15550001'') (js ''Shared'') (js ''t1'')) = Inl e \<and>
      kind e = Conflict"
    by simp
  then show ?thesis
    using register_conflict [of ?db "[]" "js ''+15550001''" "js ''Shared''" "js ''t1''"] h
    by blast
qed

text \<open>
  C4. The checks of \<open>login(P, N)\<close>, in their order: with no record for \<open>P\<close> it
  fails Unauthorized; with a record whose stored name differs from the supplied \<open>N\<close>,
  compared as it is, it fails Unauthorized, whatever the registry lists; past both, it
  fails ProjectNotFound exactly when the stored name percent-decodes and no project of the
  registry has the decoded name. Whenever it fails, the store is unchanged.
\<close>

theorem login_checks:
  "(findCoordinatorByPhone db P = None \<longrightarrow>
      login db ps P N tok now =
        (db, Inl (unauthorizedError ''Invalid phone number or project name''))) \<and>
   (findCoordinatorByPhone db P = Some c \<and> coordinator.projectName c \<noteq> N \<longrightarrow>
      login db ps P N tok now =
        (db, Inl (unauthorizedError ''Invalid phone number or project name''))) \<and>
   (findCoordinatorByPhone db P = Some c \<and> coordinator.projectName c = N \<longrightarrow>
      ((\<exists>e. snd (login db ps P N tok now) = Inl e \<and> kind e = ProjectNotFound) \<longleftrightarrow>
       (\<exists>d. decodeURIComponent (coordinator.projectName c) = Inr d \<and>
            (\<forall>p \<in> set ps. name p \<noteq> d)))) \<and>
   (login db ps P N tok now = (db', Inl e) \<longrightarrow> db' = db)"
proof (intro conjI impI)
  assume "findCoordinatorByPhone db P = None"
  then show "login db ps P N tok now =
      (db, Inl (unauthorizedError ''Invalid phone number or project name''))"
    by (simp add: login_def)
next
  assume "findCoordinatorByPhone db P = Some c \<and> coordinator.projectName c \<noteq> N"
  then show "login db ps P N tok now =
      (db, Inl (unauthorizedError ''Invalid phone number or project name''))"
    by (simp add: login_unfold)
next
  assume a: "findCoordinatorByPhone db P = Some c \<and> coordinator.projectName c = N"
  show "(\<exists>e. snd (login db ps P N tok now) = Inl e \<and> kind e = ProjectNotFound) \<longleftrightarrow>
       (\<exists>d. decodeURIComponent (coordinator.projectName c) = Inr d \<and>
            (\<forall>p \<in> set ps. name p \<noteq> d))"
  proof (cases "decodeURIComponent (coordinator.projectName c)")
    case (Inl e)
    then have "e = uriError" by (rule decodeURIComponent_throws)
    with a Inl show ?thesis by (simp add: login_unfold)
  next
    case (Inr d)
    with a show ?thesis by (auto simp: login_unfold)
  qed
next
  assume "login db ps P N tok now = (db', Inl e)"
  then show "db' = db" by (rule login_failure_store)
qed

text \<open>
  C4, at the empty store, at a wrong name and at a name the registry does not list.
\<close>

theorem login_checks_witness:
  "login emptyStore [\<lparr>name = js ''Ghost''\<rparr>] (js ''+15550001'') (js ''Ghost'') (js ''tok'') (js ''t1'') =
     (emptyStore, Inl (unauthorizedError ''Invalid phone number or project name'')) \<and>
   login \<lparr>coordinators =
            [\<lparr>coordinator.phoneNumber = js ''+15550001'', coordinator.projectName = js ''Ghost'',
              coordinator.token = None, coordinator.createdAt = js ''t0''\<rparr>],
          members = []\<rparr>
       [\<lparr>name = js ''Alpha''\<rparr>] (js ''+15550001'') (js ''Alpha'') (js ''tok'') (js ''t1'') =
     (\<lparr>coordinators =
            [\<lparr>coordinator.phoneNumber = js ''+15550001'', coordinator.projectName = js ''Ghost'',
              coordinator.token = None, coordinator.createdAt = js ''t0''\<rparr>],
          members = []\<rparr>,
      Inl (unauthorizedError ''Invalid phone number or project name'')) \<and>
   (\<exists>e. snd (login \<lparr>coordinators =
            [\<lparr>coordinator.phoneNumber = js ''+15550001'', coordinator.projectName = js ''Ghost'',
              coordinator.token = None, coordinator.createdAt = js ''t0''\<rparr>],
          members = []\<rparr>
       [\<lparr>name = js ''Alpha''\<rparr>] (js ''+15550001'') (js ''Ghost'') (js ''tok'') (js ''t1'')) = Inl e \<and>
      kind e = ProjectNotFound)"
proof -
  let ?c = "\<lparr>coordinator.phoneNumber = js ''+15550001'', coordinator.projectName = js ''Ghost'',
              coordinator.token = None, coordinator.createdAt = js ''t0''\<rparr>"
  let ?db = "\<lparr>coordinators = [?c], members = []\<rparr>"
  have h1: "findCoordinatorByPhone emptyStore (js ''+15550001'') = None"
    by code_simp
  have h2: "findCoordinatorByPhone ?db (js ''+15550001'') = Some ?c"
    by code_simp
  have h3: "coordinator.projectName ?c \<noteq> js ''Alpha''"
    by code_simp
  have h4: "decodeURIComponent (coordinator.projectName ?c) = Inr (js ''Ghost'')"
    by code_simp
  have h5: "\<forall>p \<in> set [\<lparr>name = js ''Alpha''\<rparr>]. name p \<noteq> js ''Ghost''"
    by code_simp
  have h6: "coordinator.projectName ?c = js ''Ghost''"
    by simp
  have w1: "login emptyStore [\<lparr>name = js ''Ghost''\<rparr>] (js ''+15550001'') (js ''Ghost'') (js ''tok'') (js ''t1'') =
     (emptyStore, Inl (unauthorizedError ''Invalid phone number or project name''))"
    by (rule login_checks [THEN conjunct1, THEN mp, OF h1])
  have w2: "login ?db [\<lparr>name = js ''Alpha''\<rparr>] (js ''+15550001'') (js ''Alpha'') (js ''tok'') (js ''t1'') =
     (?db, Inl (unauthorizedError ''Invalid phone number or project name''))"
    by (rule login_checks [THEN conjunct2, THEN conjunct1, THEN mp, OF conjI [OF h2 h3]])
  have absent: "\<exists>d. decodeURIComponent (coordinator.projectName ?c) = Inr d \<and>
      (\<forall>p \<in> set [\<lparr>name = js ''Alpha''\<rparr>]. name p \<noteq> d)"
    using h4 h5 by (intro exI [of _ "js ''Ghost''"] conjI)
  have w3: "\<exists>e. snd (login ?db [\<lparr>name = js ''Alpha''\<rparr>] (js ''+15550001'') (js ''Ghost'') (js ''tok'') (js ''t1'')) = Inl e \<and>
      kind e = ProjectNotFound"
    by (rule login_checks [THEN conjunct2, THEN conjunct2, THEN conjunct1, THEN mp,
          OF conjI [OF h2 h6], THEN iffD2, OF absent])
  show ?thesis
    using w1 w2 w3 by (intro conjI)
qed

text \<open>
  C5. Every successful \<open>login(P, N)\<close> found a record \<open>c\<close> for \<open>P\<close> whose stored
  name is \<open>N\<close>, and saved it again with the phone number and the project name it had,
  the generated token as \<open>token\<close> and the current time as \<open>createdAt\<close>: that is the
  record the store then holds for \<open>P\<close>, the other coordinators and the members are as
  before, and the reply carries the token and the stored project name as it is stored.
\<close>

theorem login_success:
  assumes "login db ps P N tok now = (db', Inr r)"
  shows "\<exists>c. findCoordinatorByPhone db P = Some c \<and> coordinator.projectName c = N \<and>
           r = (tok, coordinator.projectName c) \<and>
           db' = saveCoordinator db (c\<lparr>coordinator.token := Some tok, coordinator.createdAt := now\<rparr>) \<and>
           findCoordinatorByPhone db' P =
             Some \<lparr>coordinator.phoneNumber = coordinator.phoneNumber c,
                   coordinator.projectName = coordinator.projectName c,
                   coordinator.token = Some tok,
                   coordinator.createdAt = now\<rparr> \<and>
           filter (\<lambda>x. coordinator.phoneNumber x = P) (coordinators db') =
             [\<lparr>coordinator.phoneNumber = coordinator.phoneNumber c,
               coordinator.projectName = coordinator.projectName c,
               coordinator.token = Some tok,
               coordinator.createdAt = now\<rparr>] \<and>
           filter (\<lambda>x. coordinator.phoneNumber x \<noteq> P) (coordinators db') =
             filter (\<lambda>x. coordinator.phoneNumber x \<noteq> P) (coordinators db) \<and>
           members db' = members db"
proof (cases "findCoordinatorByPhone db P")
  case None
  with assms show ?thesis by (simp add: login_def)
next
  case (Some c)
  let ?c' = "c\<lparr>coordinator.token := Some tok, coordinator.createdAt := now\<rparr>"
  have phone: "coordinator.phoneNumber c = P"
    using findCoordinatorByPhone_Some [OF Some] by simp
  from assms have name: "coordinator.projectName c = N"
    and r: "r = (tok, coordinator.projectName c)"
    and db': "db' = saveCoordinator db ?c'"
    by (auto simp: login_unfold [OF Some] split: if_splits sum.splits)
  let ?l = "\<lparr>coordinator.phoneNumber = coordinator.phoneNumber c,
             coordinator.projectName = coordinator.projectName c,
             coordinator.token = Some tok,
             coordinator.createdAt = now\<rparr>"
  have found': "findCoordinatorByPhone db' P = Some ?l"
    using findCoordinatorByPhone_save [of db ?c'] phone db' by simp
  have own': "filter (\<lambda>x. coordinator.phoneNumber x = P) (coordinators db') = [?l]"
    using phone db' by (simp add: saveCoordinator_def)
  have others': "filter (\<lambda>x. coordinator.phoneNumber x \<noteq> P) (coordinators db') =
      filter (\<lambda>x. coordinator.phoneNumber x \<noteq> P) (coordinators db)"
    using phone db' by (simp add: saveCoordinator_def)
  have members': "members db' = members db"
    using db' by (simp add: saveCoordinator_def)
  show ?thesis
    by (intro exI [of _ c] conjI) (fact Some name r db' found' own' others' members')+
qed

text \<open>
  C5, at a coordinator whose stored name is \<open>"My%20Project"\<close> while the registry lists
  \<open>"My Project"\<close>: the reply carries \<open>"My%20Project"\<close>.
\<close>

theorem login_success_witness:
  "login \<lparr>coordinators =
            [\<lparr>coordinator.phoneNumber = js ''+15550001'', coordinator.projectName = js ''My%20Project'',
              coordinator.token = None, coordinator.createdAt = js ''t0''\<rparr>],
          members = []\<rparr>
     [\<lparr>name = js ''My Project''\<rparr>] (js ''+15550001'') (js ''My%20Project'') (js ''tok'') (js ''t1'') =
     (\<lparr>coordinators =
         [\<lparr>coordinator.phoneNumber = js ''+15550001'', coordinator.projectName = js ''My%20Project'',
           coordinator.token = Some (js ''tok''), coordinator.createdAt = js ''t1''\<rparr>],
       members = []\<rparr>,
      Inr (js ''tok'', js ''My%20Project'')) \<and>
   (\<exists>c. findCoordinatorByPhone
           \<lparr>coordinators =
              [\<lparr>coordinator.phoneNumber = js ''+15550001'', coordinator.projectName = js ''My%20Project'',
                coordinator.token = None, coordinator.createdAt = js ''t0''\<rparr>],
            members = []\<rparr> (js ''+15550001'') = Some c \<and>
        (js ''tok'', js ''My%20Project'') = (js ''tok'', coordinator.projectName c))"
proof -
  have h: "login \<lparr>coordinators =
            [\<lparr>coordinator.phoneNumber = js ''+15550001'', coordinator.projectName = js ''My%20Project'',
              coordinator.token = None, coordinator.createdAt = js ''t0''\<rparr>],
          members = []\<rparr>
     [\<lparr>name = js ''My Project''\<rparr>] (js ''+15550001'') (js ''My%20Project'') (js ''tok'') (js ''t1'') =
     (\<lparr>coordinators =
         [\<lparr>coordinator.phoneNumber = js ''+15550001'', coordinator.projectName = js ''My%20Project'',
           coordinator.token = Some (js ''tok''), coordinator.createdAt = js ''t1''\<rparr>],
       members = []\<rparr>,
      Inr (js ''tok'', js ''My%20Project''))"
    by code_simp
  show ?thesis
    using login_success [OF h] h by blast
qed

text \<open>
  C6. \<open>delegateMember(coordPhoneNumber, memberPhoneNumber, presentedToken)\<close> succeeds
  exactly when the coordinator exists with a (non-empty) token equal to the presented one,
  the store yields a (non-empty) project name for that coordinator, the member phone number
  matches the pattern and no member has it yet. Then exactly one member record is added to
  the store, with the member phone number, the generated token, the coordinator's phone
  number, the project name the store gave and the current time, and the reply carries that
  token and that project name.
\<close>

theorem delegateMember_success:
  "delegateMember db cp mp auth tok now = (db', Inr r) \<longleftrightarrow>
     (\<exists>c t pn. findCoordinatorByPhone db cp = Some c \<and>
        coordinator.token c = Some t \<and> t \<noteq> [] \<and> auth = Some t \<and>
        findProjectByCoordinatorPhone db cp = Some pn \<and> pn \<noteq> [] \<and>
        test phonePattern mp \<and>
        findMemberByPhone db mp = None \<and>
        db' = db\<lparr>members := members db @
                 [\<lparr>member.phoneNumber = mp, member.token = tok, member.coordinatorPhone = cp,
                   member.projectName = pn, member.createdAt = now\<rparr>]\<rparr> \<and>
        r = (tok, pn))"
proof (cases "findCoordinatorByPhone db cp")
  case None
  then show ?thesis by (simp add: delegateMember_absent)
next
  case (Some c)
  have "findProjectByCoordinatorPhone db cp = Some (coordinator.projectName c)"
    using Some by (simp add: findProjectByCoordinatorPhone_def)
  then show ?thesis
    using Some by (auto simp: delegateMember_unfold test_phonePattern)
qed

text \<open>
  C6, at a logged-in coordinator of \<open>"Field1"\<close> who delegates to
  \<open>"+15551234567"\<close>.
\<close>

theorem delegateMember_success_witness:
  "delegateMember
     \<lparr>coordinators =
        [\<lparr>coordinator.phoneNumber = js ''+15550001'', coordinator.projectName = js ''Field1'',
          coordinator.token = Some (js ''T''), coordinator.createdAt = js ''t0''\<rparr>],
      members = []\<rparr>
     (js ''+15550001'') (js ''+15551234567'') (Some (js ''T'')) (js ''M'') (js ''t1'') =
   (\<lparr>coordinators =
        [\<lparr>coordinator.phoneNumber = js ''+15550001'', coordinator.projectName = js ''Field1'',
          coordinator.token = Some (js ''T''), coordinator.createdAt = js ''t0''\<rparr>],
      members =
        [\<lparr>member.phoneNumber = js ''+15551234567'', member.token = js ''M'',
          member.coordinatorPhone = js ''+15550001'', member.projectName = js ''Field1'',
          member.createdAt = js ''t1''\<rparr>]\<rparr>,
    Inr (js ''M'', js ''Field1''))"
proof -
  let ?c = "\<lparr>coordinator.phoneNumber = js ''+15550001'', coordinator.projectName = js ''Field1'',
          coordinator.token = Some (js ''T''), coordinator.createdAt = js ''t0''\<rparr>"
  let ?db = "\<lparr>coordinators = [?c], members = []\<rparr>"
  have h: "findCoordinatorByPhone ?db (js ''+15550001'') = Some ?c \<and>
        coordinator.token ?c = Some (js ''T'') \<and> js ''T'' \<noteq> [] \<and> Some (js ''T'') = Some (js ''T'') \<and>
        findProjectByCoordinatorPhone ?db (js ''+15550001'') = Some (js ''Field1'') \<and>
        js ''Field1'' \<noteq> [] \<and>
        test phonePattern (js ''+15551234567'') \<and>
        findMemberByPhone ?db (js ''+15551234567'') = None"
    by code_simp
  have m: "?db\<lparr>members := members ?db @
                 [\<lparr>member.phoneNumber = js ''+15551234567'', member.token = js ''M'',
                   member.coordinatorPhone = js ''+15550001'',
                   member.projectName = js ''Field1'', member.createdAt = js ''t1''\<rparr>]\<rparr> =
      \<lparr>coordinators = [?c],
       members =
        [\<lparr>member.phoneNumber = js ''+15551234567'', member.token = js ''M'',
          member.coordinatorPhone = js ''+15550001'', member.projectName = js ''Field1'',
          member.createdAt = js ''t1''\<rparr>]\<rparr>"
    by simp
  show ?thesis
    by (rule delegateMember_success [THEN iffD2])
       (intro exI [of _ ?c] exI [of _ "js ''T''"] exI [of _ "js ''Field1''"] conjI h [THEN conjunct1]
          h [THEN conjunct2, THEN conjunct1]
          h [THEN conjunct2, THEN conjunct2, THEN conjunct1]
          h [THEN conjunct2, THEN conjunct2, THEN conjunct2, THEN conjunct1]
          h [THEN conjunct2, THEN conjunct2, THEN conjunct2, THEN conjunct2, THEN conjunct1]
          h [THEN conjunct2, THEN conjunct2, THEN conjunct2, THEN conjunct2, THEN conjunct2, THEN conjunct1]
          h [THEN conjunct2, THEN conjunct2, THEN conjunct2, THEN conjunct2, THEN conjunct2, THEN conjunct2, THEN conjunct1]
          h [THEN conjunct2, THEN conjunct2, THEN conjunct2, THEN conjunct2, THEN conjunct2, THEN conjunct2, THEN conjunct2]
          m [symmetric] refl)
qed

text \<open>
  C7. Whenever \<open>delegateMember\<close> fails, the store it leaves is the store it was given:
  no member record is created. It fails in each of these cases: no coordinator for the
  phone number, a coordinator without a token, no project name for the coordinator, a
  presented token that is not the coordinator's, a member phone number that does not match
  the pattern, a member phone number that is already registered.
\<close>

theorem delegateMember_failure:
  "(delegateMember db cp mp auth tok now = (db', Inl e) \<longrightarrow> db' = db \<and> members db' = members db) \<and>
   (findCoordinatorByPhone db cp = None \<or>
    (\<exists>c. findCoordinatorByPhone db cp = Some c \<and>
         (coordinator.token c = None \<or> coordinator.token c = Some [] \<or>
          findProjectByCoordinatorPhone db cp = None \<or>
          findProjectByCoordinatorPhone db cp = Some [] \<or>
          auth \<noteq> coordinator.token c \<or>
          \<not> test phonePattern mp \<or>
          findMemberByPhone db mp \<noteq> None)) \<longrightarrow>
      (\<exists>e. delegateMember db cp mp auth tok now = (db, Inl e)))"
proof (intro conjI impI)
  assume "delegateMember db cp mp auth tok now = (db', Inl e)"
  then have "db' = db" by (rule failed_delegateMember_store)
  then show "db' = db" and "members db' = members db" by simp_all
next
  assume fails: "findCoordinatorByPhone db cp = None \<or>
    (\<exists>c. findCoordinatorByPhone db cp = Some c \<and>
         (coordinator.token c = None \<or> coordinator.token c = Some [] \<or>
          findProjectByCoordinatorPhone db cp = None \<or>
          findProjectByCoordinatorPhone db cp = Some [] \<or>
          auth \<noteq> coordinator.token c \<or>
          \<not> test phonePattern mp \<or>
          findMemberByPhone db mp \<noteq> None))"
  show "\<exists>e. delegateMember db cp mp auth tok now = (db, Inl e)"
  proof (cases "findCoordinatorByPhone db cp")
    case None
    then show ?thesis by (simp add: delegateMember_absent)
  next
    case (Some c)
    have "findProjectByCoordinatorPhone db cp = Some (coordinator.projectName c)"
      using Some by (simp add: findProjectByCoordinatorPhone_def)
    with Some fails show ?thesis
      by (auto simp: delegateMember_unfold test_phonePattern)
  qed
qed

text \<open>
  C7, at the member phone number \<open>"abc"\<close> and at a wrong bearer token.
\<close>

theorem delegateMember_failure_witness:
  "delegateMember
     \<lparr>coordinators =
        [\<lparr>coordinator.phoneNumber = js ''+15550001'', coordinator.projectName = js ''Field1'',
          coordinator.token = Some (js ''T''), coordinator.createdAt = js ''t0''\<rparr>],
      members = []\<rparr>
     (js ''+15550001'') (js ''abc'') (Some (js ''T'')) (js ''M'') (js ''t1'') =
   (\<lparr>coordinators =
        [\<lparr>coordinator.phoneNumber = js ''+15550001'', coordinator.projectName = js ''Field1'',
          coordinator.token = Some (js ''T''), coordinator.createdAt = js ''t0''\<rparr>],
      members = []\<rparr>,
    Inl (badRequestError ''Invalid phone number format'')) \<and>
   (\<exists>e. delegateMember
     \<lparr>coordinators =
        [\<lparr>coordinator.phoneNumber = js ''+15550001'', coordinator.projectName = js ''Field1'',
          coordinator.token = Some (js ''T''), coordinator.createdAt = js ''t0''\<rparr>],
      members = []\<rparr>
     (js ''+15550001'') (js ''+15551234567'') (Some (js ''wrong'')) (js ''M'') (js ''t1'') =
   (\<lparr>coordinators =
        [\<lparr>coordinator.phoneNumber = js ''+15550001'', coordinator.projectName = js ''Field1'',
          coordinator.token = Some (js ''T''), coordinator.createdAt = js ''t0''\<rparr>],
      members = []\<rparr>,
    Inl e))"
proof -
  let ?c = "\<lparr>coordinator.phoneNumber = js ''+15550001'', coordinator.projectName = js ''Field1'',
          coordinator.token = Some (js ''T''), coordinator.createdAt = js ''t0''\<rparr>"
  let ?db = "\<lparr>coordinators = [?c], members = []\<rparr>"
  have e1: "delegateMember ?db (js ''+15550001'') (js ''abc'') (Some (js ''T'')) (js ''M'') (js ''t1'') =
      (fst (delegateMember ?db (js ''+15550001'') (js ''abc'') (Some (js ''T'')) (js ''M'') (js ''t1'')),
       Inl (badRequestError ''Invalid phone number format''))"
    by code_simp
  have w1: "delegateMember ?db (js ''+15550001'') (js ''abc'') (Some (js ''T'')) (js ''M'') (js ''t1'') =
      (?db, Inl (badRequestError ''Invalid phone number format''))"
    using delegateMember_failure [THEN conjunct1, THEN mp, OF e1, THEN conjunct1] e1 by simp
  have h: "findCoordinatorByPhone ?db (js ''+15550001'') = Some ?c \<and>
         (coordinator.token ?c = None \<or> coordinator.token ?c = Some [] \<or>
          findProjectByCoordinatorPhone ?db (js ''+15550001'') = None \<or>
          findProjectByCoordinatorPhone ?db (js ''+15550001'') = Some [] \<or>
          Some (js ''wrong'') \<noteq> coordinator.token ?c \<or>
          \<not> test phonePattern (js ''+15551234567'') \<or>
          findMemberByPhone ?db (js ''+15551234567'') \<noteq> None)"
    by code_simp
  have w2: "\<exists>e. delegateMember ?db (js ''+15550001'') (js ''+15551234567'') (Some (js ''wrong''))
        (js ''M'') (js ''t1'') = (?db, Inl e)"
    by (rule delegateMember_failure [THEN conjunct2, THEN mp, OF disjI2, OF exI [of _ ?c], OF h])
  show ?thesis
    using w1 w2 by (intro conjI)
qed

text \<open>
  C8, as amended. With the coordinator found, its token and project name present and the
  bearer check passed, \<open>delegateMember\<close> fails with the BadRequest error "Invalid phone
  number format" exactly when the member phone number is not an optional leading \<open>+\<close>,
  a first digit 1-9 and then 1 to 14 further digits, which is exactly when the pattern
  \<open>/^\+?[1-9]\d{1,14}$/\<close> rejects it. It fails with some BadRequest error exactly when
  the number is malformed or is already registered as a member; a well-formed number that
  is already registered fails with the BadRequest error "Phone number already registered".
\<close>

theorem delegateMember_phone_format:
  assumes "findCoordinatorByPhone db cp = Some c"
    and "coordinator.token c = Some t" and "t \<noteq> []"
    and "findProjectByCoordinatorPhone db cp = Some pn" and "pn \<noteq> []"
    and "auth = Some t"
  shows "(delegateMember db cp mp auth tok now =
            (db, Inl (badRequestError ''Invalid phone number format'')) \<longleftrightarrow> \<not> e164Like mp) \<and>
         (test phonePattern mp \<longleftrightarrow> e164Like mp) \<and>
         ((\<exists>e. snd (delegateMember db cp mp auth tok now) = Inl e \<and> kind e = BadRequest) \<longleftrightarrow>
            \<not> e164Like mp \<or> findMemberByPhone db mp \<noteq> None) \<and>
         (e164Like mp \<and> findMemberByPhone db mp \<noteq> None \<longrightarrow>
            delegateMember db cp mp auth tok now =
              (db, Inl (badRequestError ''Phone number already registered'')))"
proof -
  have "pn = coordinator.projectName c"
    using assms(1,4) by (simp add: findProjectByCoordinatorPhone_def)
  then show ?thesis
    using assms by (auto simp: delegateMember_unfold test_phonePattern)
qed

text \<open>
  C8 as amended, at the member phone number \<open>"1"\<close>, one digit short.
\<close>

theorem delegateMember_phone_format_witness:
  "(delegateMember
     \<lparr>coordinators =
        [\<lparr>coordinator.phoneNumber = js ''+15550001'', coordinator.projectName = js ''Field1'',
          coordinator.token = Some (js ''T''), coordinator.createdAt = js ''t0''\<rparr>],
      members = []\<rparr>
     (js ''+15550001'') (js ''1'') (Some (js ''T'')) (js ''M'') (js ''t1'') =
   (\<lparr>coordinators =
        [\<lparr>coordinator.phoneNumber = js ''+15550001'', coordinator.projectName = js ''Field1'',
          coordinator.token = Some (js ''T''), coordinator.createdAt = js ''t0''\<rparr>],
      members = []\<rparr>,
    Inl (badRequestError ''Invalid phone number format''))) \<and>
   \<not> e164Like (js ''1'')"
proof -
  let ?c = "\<lparr>coordinator.phoneNumber = js ''+15550001'', coordinator.projectName = js ''Field1'',
          coordinator.token = Some (js ''T''), coordinator.createdAt = js ''t0''\<rparr>"
  let ?db = "\<lparr>coordinators = [?c], members = []\<rparr>"
  have h1: "findCoordinatorByPhone ?db (js ''+15550001'') = Some ?c"
    by code_simp
  have h2: "coordinator.token ?c = Some (js ''T'')"
    by simp
  have h3: "js ''T'' \<noteq> []"
    by code_simp
  have h4: "findProjectByCoordinatorPhone ?db (js ''+15550001'') = Some (js ''Field1'')"
    by code_simp
  have h4': "js ''Field1'' \<noteq> []"
    by code_simp
  have h5: "\<not> e164Like (js ''1'')"
    by code_simp
  show ?thesis
    using delegateMember_phone_format [OF h1 h2 h3 h4 h4' refl, THEN conjunct1, THEN iffD2, OF h5] h5
    by (intro conjI)
qed

text \<open>
  C8 as stated fails: \<open>"+15551234567"\<close> matches the pattern, and delegating to it a
  second time fails with BadRequest all the same.
\<close>

theorem delegateMember_phone_format_counterexample:
  "test phonePattern (js ''+15551234567'') \<and>
   e164Like (js ''+15551234567'') \<and>
   delegateMember
     \<lparr>coordinators =
        [\<lparr>coordinator.phoneNumber = js ''+15550001'', coordinator.projectName = js ''Field1'',
          coordinator.token = Some (js ''T''), coordinator.createdAt = js ''t0''\<rparr>],
      members =
        [\<lparr>member.phoneNumber = js ''+15551234567'', member.token = js ''M'',
          member.coordinatorPhone = js ''+15550001'', member.projectName = js ''Field1'',
          member.createdAt = js ''t1''\<rparr>]\<rparr>
     (js ''+15550001'') (js ''+15551234567'') (Some (js ''T'')) (js ''M2'') (js ''t2'') =
   (\<lparr>coordinators =
        [\<lparr>coordinator.phoneNumber = js ''+15550001'', coordinator.projectName = js ''Field1'',
          coordinator.token = Some (js ''T''), coordinator.createdAt = js ''t0''\<rparr>],
      members =
        [\<lparr>member.phoneNumber = js ''+15551234567'', member.token = js ''M'',
          member.coordinatorPhone = js ''+15550001'', member.projectName = js ''Field1'',
          member.createdAt = js ''t1''\<rparr>]\<rparr>,
    Inl (badRequestError ''Phone number already registered''))"
  by code_simp

text \<open>
  C9, as amended. When \<open>N\<close> percent-decodes to a name \<open>d\<close> that does not
  percent-decode itself, a successful \<open>register(P, N)\<close> stores \<open>d\<close> for \<open>P\<close>.
  From then on, in the store that \<open>register\<close> returned and in every later store in
  which the record of \<open>P\<close> still holds \<open>d\<close>, whatever else has been registered,
  logged in or delegated meanwhile, no login for \<open>P\<close> succeeds, whatever the registry
  lists: with the stored name \<open>d\<close> it throws \<open>URIError\<close>, which is none of the typed
  errors, because the stored name is decoded a second time; with any other name it fails
  Unauthorized. Either way the store is left as it was, so the record still stands.
\<close>

theorem login_after_double_decoding:
  assumes "decodeURIComponent N = Inr d" and "decodeURIComponent d = Inl e"
    and "register db ps P N now = (db', Inr r)"
  shows "findCoordinatorByPhone db' P =
           Some \<lparr>coordinator.phoneNumber = P, coordinator.projectName = d,
                 coordinator.token = None, coordinator.createdAt = now\<rparr> \<and>
         login db' ps' P d tok now' = (db', Inl uriError) \<and>
         (N' \<noteq> d \<longrightarrow>
            login db' ps' P N' tok now' =
              (db', Inl (unauthorizedError ''Invalid phone number or project name''))) \<and>
         (findCoordinatorByPhone later P = Some c \<and> coordinator.projectName c = d \<longrightarrow>
            login later ps' P d tok now' = (later, Inl uriError) \<and>
            (N' \<noteq> d \<longrightarrow>
               login later ps' P N' tok now' =
                 (later, Inl (unauthorizedError ''Invalid phone number or project name''))) \<and>
            (\<forall>M. \<exists>err. login later ps' P M tok now' = (later, Inl err)))"
proof -
  let ?c = "\<lparr>coordinator.phoneNumber = P, coordinator.projectName = d,
             coordinator.token = None, coordinator.createdAt = now\<rparr>"
  from register_success [OF assms(3)] assms(1)
  have found: "findCoordinatorByPhone db' P = Some ?c" by auto
  have e: "e = uriError"
    using assms(2) by (rule decodeURIComponent_throws)
  have stands: "login s ps' P d tok now' = (s, Inl uriError) \<and>
      (M \<noteq> d \<longrightarrow>
         login s ps' P M tok now' =
           (s, Inl (unauthorizedError ''Invalid phone number or project name'')))"
    if "findCoordinatorByPhone s P = Some x" and "coordinator.projectName x = d" for s x M
    using that assms(2) e by (simp add: login_unfold [OF that(1)])
  have never: "\<exists>err. login s ps' P M tok now' = (s, Inl err)"
    if "findCoordinatorByPhone s P = Some x" and "coordinator.projectName x = d" for s x M
    using stands [OF that, of M] by (cases "M = d") auto
  show ?thesis
    using found stands [OF found, of N'] stands [of later c N'] never [of later c]
    by auto
qed

text \<open>
  C9 as amended, at \<open>N = "100%25"\<close>, stored as \<open>"100%"\<close>: first on the store that
  \<open>register\<close> returned, then on the store after a second coordinator has registered
  \<open>"Beta"\<close>, each time with a registry that lists \<open>"100%"\<close>.
\<close>

theorem login_after_double_decoding_witness:
  "decodeURIComponent (js ''100%25'') = Inr (js ''100%'') \<and>
   decodeURIComponent (js ''100%'') = Inl uriError \<and>
   register emptyStore [] (js ''+15550001'') (js ''100%25'') (js ''t0'') =
     (\<lparr>coordinators =
         [\<lparr>coordinator.phoneNumber = js ''+15550001'', coordinator.projectName = js ''100%'',
           coordinator.token = None, coordinator.createdAt = js ''t0''\<rparr>],
       members = []\<rparr>,
      Inr (js ''+15550001'', js ''100%'')) \<and>
   login \<lparr>coordinators =
         [\<lparr>coordinator.phoneNumber = js ''+15550001'', coordinator.projectName = js ''100%'',
           coordinator.token = None, coordinator.createdAt = js ''t0''\<rparr>],
       members = []\<rparr>
     [\<lparr>name = js ''100%''\<rparr>] (js ''+15550001'') (js ''100%'') (js ''tok'') (js ''t1'') =
     (\<lparr>coordinators =
         [\<lparr>coordinator.phoneNumber = js ''+15550001'', coordinator.projectName = js ''100%'',
           coordinator.token = None, coordinator.createdAt = js ''t0''\<rparr>],
       members = []\<rparr>,
      Inl uriError) \<and>
   register \<lparr>coordinators =
         [\<lparr>coordinator.phoneNumber = js ''+15550001'', coordinator.projectName = js ''100%'',
           coordinator.token = None, coordinator.createdAt = js ''t0''\<rparr>],
       members = []\<rparr> [] (js ''+15550002'') (js ''Beta'') (js ''t1'') =
     (\<lparr>coordinators =
         [\<lparr>coordinator.phoneNumber = js ''+15550001'', coordinator.projectName = js ''100%'',
           coordinator.token = None, coordinator.createdAt = js ''t0''\<rparr>,
          \<lparr>coordinator.phoneNumber = js ''+15550002'', coordinator.projectName = js ''Beta'',
           coordinator.token = None, coordinator.createdAt = js ''t1''\<rparr>],
       members = []\<rparr>,
      Inr (js ''+15550002'', js ''Beta'')) \<and>
   login \<lparr>coordinators =
         [\<lparr>coordinator.phoneNumber = js ''+15550001'', coordinator.projectName = js ''100%'',
           coordinator.token = None, coordinator.createdAt = js ''t0''\<rparr>,
          \<lparr>coordinator.phoneNumber = js ''+15550002'', coordinator.projectName = js ''Beta'',
           coordinator.token = None, coordinator.createdAt = js ''t1''\<rparr>],
       members = []\<rparr>
     [\<lparr>name = js ''100%''\<rparr>] (js ''+15550001'') (js ''100%'') (js ''tok'') (js ''t2'') =
     (\<lparr>coordinators =
         [\<lparr>coordinator.phoneNumber = js ''+15550001'', coordinator.projectName = js ''100%'',
           coordinator.token = None, coordinator.createdAt = js ''t0''\<rparr>,
          \<lparr>coordinator.phoneNumber = js ''+15550002'', coordinator.projectName = js ''Beta'',
           coordinator.token = None, coordinator.createdAt = js ''t1''\<rparr>],
       members = []\<rparr>,
      Inl uriError)"
proof -
  let ?p = "\<lparr>coordinator.phoneNumber = js ''+15550001'', coordinator.projectName = js ''100%'',
           coordinator.token = None, coordinator.createdAt = js ''t0''\<rparr>"
  let ?q = "\<lparr>coordinator.phoneNumber = js ''+15550002'', coordinator.projectName = js ''Beta'',
           coordinator.token = None, coordinator.createdAt = js ''t1''\<rparr>"
  let ?later = "\<lparr>coordinators = [?p, ?q], members = []\<rparr>"
  have h1: "decodeURIComponent (js ''100%25'') = Inr (js ''100%'')"
    by code_simp
  have h2: "decodeURIComponent (js ''100%'') = Inl uriError"
    by code_simp
  have h3: "register emptyStore [] (js ''+15550001'') (js ''100%25'') (js ''t0'') =
     (\<lparr>coordinators = [?p], members = []\<rparr>, Inr (js ''+15550001'', js ''100%''))"
    by code_simp
  have h4: "register \<lparr>coordinators = [?p], members = []\<rparr> [] (js ''+15550002'') (js ''Beta'') (js ''t1'') =
     (?later, Inr (js ''+15550002'', js ''Beta''))"
    by code_simp
  have h5: "findCoordinatorByPhone ?later (js ''+15550001'') = Some ?p"
    by code_simp
  have h6: "coordinator.projectName ?p = js ''100%''"
    by simp
  note t = login_after_double_decoding [OF h1 h2 h3]
  have w1: "login \<lparr>coordinators = [?p], members = []\<rparr>
      [\<lparr>name = js ''100%''\<rparr>] (js ''+15550001'') (js ''100%'') (js ''tok'') (js ''t1'') =
      (\<lparr>coordinators = [?p], members = []\<rparr>, Inl uriError)"
    by (rule t [THEN conjunct2, THEN conjunct1])
  have w2: "login ?later
      [\<lparr>name = js ''100%''\<rparr>] (js ''+15550001'') (js ''100%'') (js ''tok'') (js ''t2'') =
      (?later, Inl uriError)"
    by (rule t [THEN conjunct2, THEN conjunct2, THEN conjunct2, THEN mp, OF conjI [OF h5 h6],
          THEN conjunct1])
  show ?thesis
    using h1 h2 h3 w1 h4 w2 by (intro conjI)
qed

text \<open>
  C9 as stated fails: after \<open>"100%25"\<close> is registered, the login with \<open>"100%25"\<close>
  throws no \<open>URIError\<close>; it fails with the typed error Unauthorized.
\<close>

theorem login_after_double_decoding_counterexample:
  "register emptyStore [] (js ''+15550001'') (js ''100%25'') (js ''t0'') =
     (\<lparr>coordinators =
         [\<lparr>coordinator.phoneNumber = js ''+15550001'', coordinator.projectName = js ''100%'',
           coordinator.token = None, coordinator.createdAt = js ''t0''\<rparr>],
       members = []\<rparr>,
      Inr (js ''+15550001'', js ''100%'')) \<and>
   login \<lparr>coordinators =
         [\<lparr>coordinator.phoneNumber = js ''+15550001'', coordinator.projectName = js ''100%'',
           coordinator.token = None, coordinator.createdAt = js ''t0''\<rparr>],
       members = []\<rparr>
     [] (js ''+15550001'') (js ''100%25'') (js ''tok'') (js ''t1'') =
     (\<lparr>coordinators =
         [\<lparr>coordinator.phoneNumber = js ''+15550001'', coordinator.projectName = js ''100%'',
           coordinator.token = None, coordinator.createdAt = js ''t0''\<rparr>],
       members = []\<rparr>,
      Inl (unauthorizedError ''Invalid phone number or project name''))"
  by code_simp

text \<open>
  C10. Register then login with an encoded name: for every phone number \<open>P\<close> and project
  name \<open>N\<close> whose percent-decoding \<open>d\<close> differs from \<open>N\<close>, after a successful
  \<open>register(P, N)\<close> the call \<open>login(P, N)\<close> with the same arguments fails
  Unauthorized, whatever the registry lists, because the store holds \<open>d\<close> and the login
  compares the supplied name undecoded; a login for \<open>P\<close> fails that name check exactly
  when the supplied name is not \<open>d\<close>.
\<close>

theorem register_then_login_encoded_name:
  assumes "decodeURIComponent N = Inr d" and "d \<noteq> N"
    and "register db ps P N now = (db', Inr r)"
  shows "login db' ps' P N tok now' =
           (db', Inl (unauthorizedError ''Invalid phone number or project name'')) \<and>
         (login db' ps' P N' tok now' =
            (db', Inl (unauthorizedError ''Invalid phone number or project name''))
          \<longleftrightarrow> N' \<noteq> d)"
proof -
  let ?c = "\<lparr>coordinator.phoneNumber = P, coordinator.projectName = d,
             coordinator.token = None, coordinator.createdAt = now\<rparr>"
  from register_success [OF assms(3)] assms(1)
  have found: "findCoordinatorByPhone db' P = Some ?c" by auto
  have mismatch: "login db' ps' P M tok now' =
           (db', Inl (unauthorizedError ''Invalid phone number or project name''))" if "M \<noteq> d" for M
    using that by (simp add: login_unfold [OF found])
  have match: "login db' ps' P d tok now' \<noteq>
           (db', Inl (unauthorizedError ''Invalid phone number or project name''))"
    using decodeURIComponent_throws [of d]
    by (auto simp: login_unfold [OF found] split: sum.splits)
  show ?thesis
    using mismatch [of N] mismatch [of N'] match assms(2) by auto
qed

text \<open>
  C10, at \<open>N = "My%20Project"\<close>, registered on the empty store.
\<close>

theorem register_then_login_encoded_name_witness:
  "decodeURIComponent (js ''My%20Project'') = Inr (js ''My Project'') \<and>
   js ''My Project'' \<noteq> js ''My%20Project'' \<and>
   register emptyStore [] (js ''+15550001'') (js ''My%20Project'') (js ''t0'') =
     (\<lparr>coordinators =
         [\<lparr>coordinator.phoneNumber = js ''+15550001'', coordinator.projectName = js ''My Project'',
           coordinator.token = None, coordinator.createdAt = js ''t0''\<rparr>],
       members = []\<rparr>,
      Inr (js ''+15550001'', js ''My Project'')) \<and>
   login \<lparr>coordinators =
         [\<lparr>coordinator.phoneNumber = js ''+15550001'', coordinator.projectName = js ''My Project'',
           coordinator.token = None, coordinator.createdAt = js ''t0''\<rparr>],
       members = []\<rparr>
     [\<lparr>name = js ''My Project''\<rparr>] (js ''+15550001'') (js ''My%20Project'') (js ''tok'') (js ''t1'') =
     (\<lparr>coordinators =
         [\<lparr>coordinator.phoneNumber = js ''+15550001'', coordinator.projectName = js ''My Project'',
           coordinator.token = None, coordinator.createdAt = js ''t0''\<rparr>],
       members = []\<rparr>,
      Inl (unauthorizedError ''Invalid phone number or project name''))"
proof -
  have h1: "decodeURIComponent (js ''My%20Project'') = Inr (js ''My Project'')"
    by code_simp
  have h2: "js ''My Project'' \<noteq> js ''My%20Project''"
    by code_simp
  have h3: "register emptyStore [] (js ''+15550001'') (js ''My%20Project'') (js ''t0'') =
     (\<lparr>coordinators =
         [\<lparr>coordinator.phoneNumber = js ''+15550001'', coordinator.projectName = js ''My Project'',
           coordinator.token = None, coordinator.createdAt = js ''t0''\<rparr>],
       members = []\<rparr>,
      Inr (js ''+15550001'', js ''My Project''))"
    by code_simp
  show ?thesis
    using register_then_login_encoded_name [OF h1 h2 h3, of "[\<lparr>name = js ''My Project''\<rparr>]" "js ''tok''" "js ''t1''"]
      h1 h2 h3 by blast
qed

end
